theory Spec2Isabelle
  imports Main
begin

section \<open>Browser objects used by the room page\<close>

text \<open>
  The program is a React component (\<^verbatim>\<open>RoomPage.tsx\<close>) and two context providers
  (\<^verbatim>\<open>Peer.tsx\<close>, \<^verbatim>\<open>Socket.tsx\<close>). Everything it computes goes through browser objects:
  media streams and tracks, \<^verbatim>\<open>navigator.mediaDevices.getUserMedia\<close>, an
  \<^verbatim>\<open>RTCPeerConnection\<close>, a socket and the console. They are modelled as values below;
  what the browser decides (whether a request is granted, which SDP text it writes) is
  an explicit input of each function.
\<close>

datatype track_kind = Audio | Video

text \<open>
  A \<^verbatim>\<open>MediaStreamTrack\<close> is an object with identity. A track is named by the hardware
  request that created it (\<open>owner\<close>) and its kind: every granted request creates new
  track objects, one per requested kind.
\<close>

record track =
  owner :: nat
  kind :: track_kind

record stream =
  sid :: nat
  tracks :: "track list"

text \<open>A thrown value: \<^verbatim>\<open>error.name\<close> and \<^verbatim>\<open>error.message\<close>.\<close>

record dom_exception =
  name :: string
  message :: string

text \<open>
  The two constraint objects the source passes to
  \<^verbatim>\<open>navigator.mediaDevices.getUserMedia\<close>: line 33 (audio, and video with ideal
  1280x720 at 30 frames) and line 77 (\<^verbatim>\<open>{audio: true, video: false}\<close>).
\<close>

datatype constraints = AudioVideo | AudioOnly

text \<open>How the browser settles one hardware request.\<close>

datatype hw_outcome = Granted | Rejected dom_exception

text \<open>What the acquirer asks of the outside world, in order.\<close>

datatype hw_effect = Request constraints | Sleep nat

definition new_stream :: "nat \<Rightarrow> constraints \<Rightarrow> stream" where
  "new_stream req c =
     \<lparr>sid = req,
      tracks = (case c of
                  AudioVideo \<Rightarrow> [\<lparr>owner = req, kind = Audio\<rparr>, \<lparr>owner = req, kind = Video\<rparr>]
                | AudioOnly \<Rightarrow> [\<lparr>owner = req, kind = Audio\<rparr>])\<rparr>"

subsection \<open>The peer connection\<close>

text \<open>
  \<^verbatim>\<open>RTCPeerConnection\<close> is the browser's object. The program only calls
  \<^verbatim>\<open>createOffer\<close>, \<^verbatim>\<open>createAnswer\<close>, \<^verbatim>\<open>setLocalDescription\<close>,
  \<^verbatim>\<open>setRemoteDescription\<close> and \<^verbatim>\<open>addTrack\<close> on it and never closes it. The model
  keeps the signaling state, the four description slots and the senders, and follows
  the signaling state table of WebRTC 1.0 for descriptions of type offer and answer
  (the only types the program creates). A remote offer that arrives while a local
  offer is pending rolls the local offer back first, as the browser does.

  A description carries the ICE candidates written into it. The connection gathers
  its own candidates once it has a local description; an offer or answer it creates
  holds the candidates gathered until then, and its local description shows all that
  have been gathered by now. The program never passes candidates to the other side.
\<close>

datatype sdp_type = Offer | Answer

record description =
  dtype :: sdp_type
  sdp :: string
  candidates :: "string list"

datatype signaling_state = Stable | HaveLocalOffer | HaveRemoteOffer

record peer_connection =
  signalingState :: signaling_state
  currentLocalDescription :: "description option"
  pendingLocalDescription :: "description option"
  currentRemoteDescription :: "description option"
  pendingRemoteDescription :: "description option"
  gathered :: "string list"
  senders :: "track list"

definition new_peer :: peer_connection where
  "new_peer =
     \<lparr>signalingState = Stable,
      currentLocalDescription = None, pendingLocalDescription = None,
      currentRemoteDescription = None, pendingRemoteDescription = None,
      gathered = [], senders = []\<rparr>"

text \<open>The attributes \<^verbatim>\<open>localDescription\<close> and \<^verbatim>\<open>remoteDescription\<close>: the pending
  description when there is one, the current one otherwise. The local description is
  shown with the candidates the connection has gathered so far; the remote description
  is what the other side sent.\<close>

definition localDescription :: "peer_connection \<Rightarrow> description option" where
  "localDescription pc =
     (case pendingLocalDescription pc of
        Some d \<Rightarrow> Some (d\<lparr>candidates := gathered pc\<rparr>)
      | None \<Rightarrow>
          (case currentLocalDescription pc of
             Some d \<Rightarrow> Some (d\<lparr>candidates := gathered pc\<rparr>)
           | None \<Rightarrow> None))"

definition remoteDescription :: "peer_connection \<Rightarrow> description option" where
  "remoteDescription pc =
     (case pendingRemoteDescription pc of Some d \<Rightarrow> Some d | None \<Rightarrow> currentRemoteDescription pc)"

definition InvalidStateError :: dom_exception where
  "InvalidStateError = \<lparr>name = ''InvalidStateError'', message = ''wrong signaling state''\<rparr>"

definition InvalidAccessError :: dom_exception where
  "InvalidAccessError = \<lparr>name = ''InvalidAccessError'', message = ''a sender already exists for the track''\<rparr>"

text \<open>
  Every asynchronous call on the connection takes the browser's own verdict as its
  first argument: a rejection for a reason outside the signaling state (an
  \<^verbatim>\<open>OperationError\<close>, say), or none. A rejected call leaves the connection as it was.
\<close>

definition pc_createOffer :: "dom_exception + string \<Rightarrow> peer_connection \<Rightarrow> dom_exception + description" where
  "pc_createOffer r pc =
     (case r of
        Inl e \<Rightarrow> Inl e
      | Inr text \<Rightarrow> Inr \<lparr>dtype = Offer, sdp = text, candidates = gathered pc\<rparr>)"

definition pc_createAnswer :: "dom_exception + string \<Rightarrow> peer_connection \<Rightarrow> dom_exception + description" where
  "pc_createAnswer r pc =
     (if signalingState pc \<noteq> HaveRemoteOffer then Inl InvalidStateError
      else case r of
             Inl e \<Rightarrow> Inl e
           | Inr text \<Rightarrow> Inr \<lparr>dtype = Answer, sdp = text, candidates = gathered pc\<rparr>)"

text \<open>
  \<^verbatim>\<open>setLocalDescription\<close> stores the description it is given in its slot. From then
  on the browser gathers candidates; they are kept in \<open>gathered\<close> and are part of what
  \<^verbatim>\<open>localDescription\<close> shows.
\<close>

definition pc_setLocalDescription ::
  "dom_exception option \<Rightarrow> description \<Rightarrow> peer_connection \<Rightarrow> dom_exception + peer_connection" where
  "pc_setLocalDescription r d pc =
     (case r of
        Some e \<Rightarrow> Inl e
      | None \<Rightarrow>
          (case dtype d of
             Offer \<Rightarrow>
               if signalingState pc = Stable \<or> signalingState pc = HaveLocalOffer
               then Inr (pc\<lparr>signalingState := HaveLocalOffer, pendingLocalDescription := Some d\<rparr>)
               else Inl InvalidStateError
           | Answer \<Rightarrow>
               if signalingState pc = HaveRemoteOffer
               then Inr (pc\<lparr>signalingState := Stable,
                             currentLocalDescription := Some d,
                             currentRemoteDescription := pendingRemoteDescription pc,
                             pendingLocalDescription := None,
                             pendingRemoteDescription := None\<rparr>)
               else Inl InvalidStateError))"

definition pc_setRemoteDescription ::
  "dom_exception option \<Rightarrow> description \<Rightarrow> peer_connection \<Rightarrow> dom_exception + peer_connection" where
  "pc_setRemoteDescription r d pc =
     (case r of
        Some e \<Rightarrow> Inl e
      | None \<Rightarrow>
          (case dtype d of
             Offer \<Rightarrow>
               if signalingState pc = Stable \<or> signalingState pc = HaveRemoteOffer
               then Inr (pc\<lparr>signalingState := HaveRemoteOffer, pendingRemoteDescription := Some d\<rparr>)
               else Inr (pc\<lparr>signalingState := HaveRemoteOffer, pendingLocalDescription := None,
                             pendingRemoteDescription := Some d\<rparr>)
           | Answer \<Rightarrow>
               if signalingState pc = HaveLocalOffer
               then Inr (pc\<lparr>signalingState := Stable,
                             currentRemoteDescription := Some d,
                             currentLocalDescription := pendingLocalDescription pc,
                             pendingLocalDescription := None,
                             pendingRemoteDescription := None\<rparr>)
               else Inl InvalidStateError))"

text \<open>
  The browser gathers a candidate of its own. It gathers only once a local description
  has been set (the program leaves the candidate pool at its default size of zero).
\<close>

definition pc_iceCandidate :: "string \<Rightarrow> peer_connection \<Rightarrow> peer_connection" where
  "pc_iceCandidate c pc =
     (if pendingLocalDescription pc = None \<and> currentLocalDescription pc = None then pc
      else pc\<lparr>gathered := gathered pc @ [c]\<rparr>)"

definition gather :: "string list \<Rightarrow> peer_connection \<Rightarrow> peer_connection" where
  "gather cs pc = foldl (\<lambda>p c. pc_iceCandidate c p) pc cs"

text \<open>\<^verbatim>\<open>peer.addTrack(track, stream)\<close> is synchronous and throws when the track
  already has a sender.\<close>

definition pc_addTrack :: "track \<Rightarrow> peer_connection \<Rightarrow> dom_exception + peer_connection" where
  "pc_addTrack t pc =
     (if t \<in> set (senders pc) then Inl InvalidAccessError
      else Inr (pc\<lparr>senders := senders pc @ [t]\<rparr>))"

section \<open>Peer.tsx: the negotiation engine\<close>

text \<open>
  Each operation returns what the promise settles to, together with the connection as
  the operation leaves it: an operation that throws half way has already changed the
  connection.
\<close>

record browser =
  createOfferR :: "dom_exception + string"
  createAnswerR :: "dom_exception + string"
  setLocalR :: "dom_exception option"
  setRemoteR :: "dom_exception option"

definition willing :: "string \<Rightarrow> browser" where
  "willing text =
     \<lparr>createOfferR = Inr text, createAnswerR = Inr text, setLocalR = None, setRemoteR = None\<rparr>"

definition createOffer :: "browser \<Rightarrow> peer_connection \<Rightarrow> (dom_exception + description) \<times> peer_connection" where
  "createOffer b pc =
     (case pc_createOffer (createOfferR b) pc of
        Inl e \<Rightarrow> (Inl e, pc)
      | Inr offer \<Rightarrow>
          (case pc_setLocalDescription (setLocalR b) offer pc of
             Inl e \<Rightarrow> (Inl e, pc)
           | Inr pc1 \<Rightarrow> (Inr offer, pc1)))"

definition acceptOffer ::
  "browser \<Rightarrow> description \<Rightarrow> peer_connection \<Rightarrow> (dom_exception + description) \<times> peer_connection" where
  "acceptOffer b offer pc =
     (case pc_setRemoteDescription (setRemoteR b) offer pc of
        Inl e \<Rightarrow> (Inl e, pc)
      | Inr pc1 \<Rightarrow>
          (case pc_createAnswer (createAnswerR b) pc1 of
             Inl e \<Rightarrow> (Inl e, pc1)
           | Inr answer \<Rightarrow>
               (case pc_setLocalDescription (setLocalR b) answer pc1 of
                  Inl e \<Rightarrow> (Inl e, pc1)
                | Inr pc2 \<Rightarrow> (Inr answer, pc2))))"

definition setFinalAnswer ::
  "browser \<Rightarrow> description \<Rightarrow> peer_connection \<Rightarrow> (dom_exception + unit) \<times> peer_connection" where
  "setFinalAnswer b answer pc =
     (case pc_setRemoteDescription (setRemoteR b) answer pc of
        Inl e \<Rightarrow> (Inl e, pc)
      | Inr pc1 \<Rightarrow> (Inr (), pc1))"

text \<open>\<^verbatim>\<open>handleTrackEvent\<close> of the provider: \<^verbatim>\<open>setremoteStream(streams[0])\<close>, with no
  test of the array; \<^verbatim>\<open>streams[0]\<close> of an empty array is \<^verbatim>\<open>undefined\<close>, here \<open>None\<close>.\<close>

record track_event =
  ev_track :: track
  ev_streams :: "stream list"

definition handleTrackEvent :: "track_event \<Rightarrow> stream option \<Rightarrow> stream option" where
  "handleTrackEvent ev remote = (case ev_streams ev of [] \<Rightarrow> None | s # _ \<Rightarrow> Some s)"

subsection \<open>The accessor hooks\<close>

text \<open>
  \<^verbatim>\<open>React.useContext\<close> gives the value of the nearest enclosing provider, or the
  default of \<^verbatim>\<open>createContext(null)\<close> when there is none: \<open>None\<close> is that \<^verbatim>\<open>null\<close>.
  A context value is an object, so \<^verbatim>\<open>!peer\<close> holds exactly for \<^verbatim>\<open>null\<close>.
\<close>

datatype js_error = Error string

definition usePeer :: "'p option \<Rightarrow> js_error + 'p" where
  "usePeer ctx = (case ctx of None \<Rightarrow> Inl (Error ''User peer must be in a provider'') | Some p \<Rightarrow> Inr p)"

definition useSocket :: "'s option \<Rightarrow> js_error + 's" where
  "useSocket ctx = (case ctx of None \<Rightarrow> Inl (Error ''Socket Is intialize'') | Some s \<Rightarrow> Inr s)"

section \<open>RoomPage.tsx: the state of the room page\<close>

text \<open>
  The six \<^verbatim>\<open>useState\<close> values (lines 7 to 12). A callback made by
  \<^verbatim>\<open>useCallback\<close> reads the values of the render that made it, not the latest
  ones: every function below takes the values it closed over as \<open>cl\<close> and writes
  through the setters into the room.
\<close>

record react_state =
  myStream :: "stream option"
  remoteSocketId :: string
  remoteStream :: "stream option"
  isStreamsSent :: bool
  mediaError :: "string option"
  isGettingMedia :: bool

datatype out_msg =
    EmitCreateOffer description string
  | EmitAnswer description string
  | EmitNegotiationNeeded description string
  | EmitNegoDone description string

text \<open>The calls of \<^verbatim>\<open>console.error\<close>: line 47 with the attempt number, a plain
  message, or a message with the caught value.\<close>

datatype log_entry =
    GettingMediaFailed nat dom_exception
  | Plain string
  | Caught string dom_exception

text \<open>
  The room: the React state, the ref \<^verbatim>\<open>streamInitialized.current\<close>, the peer
  connection of the provider, the tracks the page has passed to \<^verbatim>\<open>peer.addTrack\<close>
  (every call, in order), the tracks that have been stopped (\<^verbatim>\<open>readyState\<close>
  \<^verbatim>\<open>"ended"\<close>), the hardware requests and timers in the order they were started,
  the number of hardware requests so far, the messages given to \<^verbatim>\<open>socket.emit\<close>
  and the error console.
\<close>

record room =
  state :: react_state
  streamInitialized :: bool
  peer :: peer_connection
  addTrackCalls :: "track list"
  ended :: "track set"
  hwTrace :: "hw_effect list"
  hwCount :: nat
  outbox :: "out_msg list"
  console :: "log_entry list"

definition init_state :: react_state where
  "init_state =
     \<lparr>myStream = None, remoteSocketId = [], remoteStream = None,
      isStreamsSent = False, mediaError = None, isGettingMedia = False\<rparr>"

definition init_room :: room where
  "init_room =
     \<lparr>state = init_state, streamInitialized = False, peer = new_peer, addTrackCalls = [],
      ended = {},
      hwTrace = [], hwCount = 0, outbox = [], console = []\<rparr>"

definition setMyStream :: "stream option \<Rightarrow> room \<Rightarrow> room" where
  "setMyStream v st = st\<lparr>state := (state st)\<lparr>myStream := v\<rparr>\<rparr>"

definition setRemoteSocketId :: "string \<Rightarrow> room \<Rightarrow> room" where
  "setRemoteSocketId v st = st\<lparr>state := (state st)\<lparr>remoteSocketId := v\<rparr>\<rparr>"

definition setRemoteStream :: "stream option \<Rightarrow> room \<Rightarrow> room" where
  "setRemoteStream v st = st\<lparr>state := (state st)\<lparr>remoteStream := v\<rparr>\<rparr>"

definition setIsStreamsSent :: "bool \<Rightarrow> room \<Rightarrow> room" where
  "setIsStreamsSent v st = st\<lparr>state := (state st)\<lparr>isStreamsSent := v\<rparr>\<rparr>"

definition setMediaError :: "string option \<Rightarrow> room \<Rightarrow> room" where
  "setMediaError v st = st\<lparr>state := (state st)\<lparr>mediaError := v\<rparr>\<rparr>"

definition setIsGettingMedia :: "bool \<Rightarrow> room \<Rightarrow> room" where
  "setIsGettingMedia v st = st\<lparr>state := (state st)\<lparr>isGettingMedia := v\<rparr>\<rparr>"

definition console_error :: "log_entry \<Rightarrow> room \<Rightarrow> room" where
  "console_error l st = st\<lparr>console := console st @ [l]\<rparr>"

definition emit :: "out_msg \<Rightarrow> room \<Rightarrow> room" where
  "emit m st = st\<lparr>outbox := outbox st @ [m]\<rparr>"

definition request :: "constraints \<Rightarrow> room \<Rightarrow> room" where
  "request c st = st\<lparr>hwTrace := hwTrace st @ [Request c], hwCount := Suc (hwCount st)\<rparr>"

definition sleep :: "nat \<Rightarrow> room \<Rightarrow> room" where
  "sleep ms st = st\<lparr>hwTrace := hwTrace st @ [Sleep ms]\<rparr>"

definition stop_tracks :: "stream \<Rightarrow> room \<Rightarrow> room" where
  "stop_tracks s st = st\<lparr>ended := ended st \<union> set (tracks s)\<rparr>"

subsection \<open>getUserMedia (lines 19 to 98)\<close>

text \<open>
  The function suspends at three places: the request of line 42, the timer of line 55
  and the audio-only request of line 77. The code between them is one definition each.

  \<open>gum_enter\<close> is lines 21 to 42: \<open>None\<close> is the \<^verbatim>\<open>return null\<close> of line 23.
\<close>

definition gum_enter :: "react_state \<Rightarrow> room \<Rightarrow> room option" where
  "gum_enter cl st =
     (if isGettingMedia cl then None
      else Some (request AudioVideo (setMediaError None (setIsGettingMedia True st))))"

datatype gum_next = Return "stream option" | Retry | Fallback

text \<open>Lines 43 to 94, up to the next suspension: \<open>req\<close> is the number of the request
  that has settled.\<close>

definition gum_settled :: "nat \<Rightarrow> nat \<Rightarrow> hw_outcome \<Rightarrow> room \<Rightarrow> gum_next \<times> room" where
  "gum_settled req retryCount out st =
     (case out of
        Granted \<Rightarrow> (Return (Some (new_stream req AudioVideo)), setIsGettingMedia False st)
      | Rejected e \<Rightarrow>
          (let st1 = setIsGettingMedia False (console_error (GettingMediaFailed (retryCount + 1) e) st) in
           if name e = ''NotReadableError'' \<and> retryCount < 2 then (Retry, sleep 1000 st1)
           else if name e = ''NotAllowedError'' then
             (Return None,
              setMediaError (Some ''Camera/microphone access denied. Please allow permissions and refresh the page.'') st1)
           else if name e = ''NotFoundError'' then
             (Return None,
              setMediaError (Some ''No camera or microphone found. Please connect a camera and microphone.'') st1)
           else if name e = ''NotReadableError'' then (Fallback, request AudioOnly st1)
           else (Return None, setMediaError (Some (''Media error: '' @ message e)) st1)))"

text \<open>Lines 77 to 90, once the audio-only request has settled.\<close>

definition gum_audio_settled :: "nat \<Rightarrow> hw_outcome \<Rightarrow> room \<Rightarrow> stream option \<times> room" where
  "gum_audio_settled req out st =
     (case out of
        Granted \<Rightarrow>
          (Some (new_stream req AudioOnly),
           setMediaError (Some ''Camera unavailable (might be in use). Using audio-only mode.'') st)
      | Rejected e \<Rightarrow>
          (None,
           setMediaError (Some ''Camera is in use by another application. Please close other applications using the camera.'') st))"

text \<open>
  One whole call, run to its end: \<open>hw n\<close> is how the browser settles hardware request
  number \<open>n\<close>. The recursive call of line 56 is made by the same closure, so it sees the
  same \<open>cl\<close>.
\<close>

function getUserMedia :: "(nat \<Rightarrow> hw_outcome) \<Rightarrow> react_state \<Rightarrow> nat \<Rightarrow> room \<Rightarrow> stream option \<times> room" where
  "getUserMedia hw cl retryCount st =
     (case gum_enter cl st of
        None \<Rightarrow> (None, st)
      | Some st1 \<Rightarrow>
          (case gum_settled (hwCount st) retryCount (hw (hwCount st)) st1 of
             (Return r, st2) \<Rightarrow> (r, st2)
           | (Retry, st2) \<Rightarrow> getUserMedia hw cl (retryCount + 1) st2
           | (Fallback, st2) \<Rightarrow> gum_audio_settled (hwCount st1) (hw (hwCount st1)) st2))"
  by pat_completeness auto
termination
  apply (relation "measure (\<lambda>(hw, cl, retryCount, st). 2 - retryCount)")
   apply simp
  apply (auto simp: gum_settled_def Let_def split: hw_outcome.splits if_splits)
  done

declare getUserMedia.simps [simp del]

subsection \<open>What the page shows (lines 387 to 493)\<close>

datatype action = RetryMediaAccess | HandleCreateOffer | DebugPeerConnection

record button =
  label :: string
  onClick :: action
  disabled :: bool

text \<open>
  The error banner of lines 397 to 407 is rendered when \<^verbatim>\<open>mediaError\<close> is truthy (not
  \<^verbatim>\<open>null\<close> and not the empty string): the message and one Retry button. The row of
  lines 409 to 434 holds Start Call (only with a remote id and a stream), Debug
  Connection and Retry Camera.
\<close>

record view =
  banner :: "(string \<times> button) option"
  controls :: "button list"

definition render :: "react_state \<Rightarrow> view" where
  "render cl =
     \<lparr>banner =
        (case mediaError cl of
           None \<Rightarrow> None
         | Some m \<Rightarrow>
             if m = [] then None
             else Some (m, \<lparr>label = ''Retry'', onClick = RetryMediaAccess, disabled = False\<rparr>)),
      controls =
        (if remoteSocketId cl \<noteq> [] \<and> myStream cl \<noteq> None
         then [\<lparr>label = (if isGettingMedia cl then ''Getting Media...'' else ''Start Call''),
                 onClick = HandleCreateOffer, disabled = isGettingMedia cl\<rparr>]
         else [])
        @ [\<lparr>label = ''Debug Connection'', onClick = DebugPeerConnection, disabled = False\<rparr>,
           \<lparr>label = (if isGettingMedia cl then ''Getting Media...'' else ''Retry Camera''),
             onClick = RetryMediaAccess, disabled = isGettingMedia cl\<rparr>]\<rparr>"

text \<open>The buttons of a view that can be pressed.\<close>

definition offered :: "view \<Rightarrow> action list" where
  "offered v =
     map onClick (filter (\<lambda>b. \<not> disabled b)
       ((case banner v of None \<Rightarrow> [] | Some (m, b) \<Rightarrow> [b]) @ controls v))"

subsection \<open>Remote tracks (lines 322 to 336)\<close>

text \<open>\<^verbatim>\<open>ev.streams\<close> is always an array, so the test of line 325 is on its length.\<close>

definition handleRemoteStream :: "track_event \<Rightarrow> room \<Rightarrow> room" where
  "handleRemoteStream ev st =
     (case ev_streams ev of [] \<Rightarrow> st | s # _ \<Rightarrow> setRemoteStream (Some s) st)"

text \<open>A sequence of \<^verbatim>\<open>track\<close> events, delivered in order to the listener of the page
  and to the listener of the provider.\<close>

definition track_events :: "track_event list \<Rightarrow> room \<Rightarrow> room" where
  "track_events evs st = foldl (\<lambda>s ev. handleRemoteStream ev s) st evs"

definition provider_track_events :: "track_event list \<Rightarrow> stream option \<Rightarrow> stream option" where
  "provider_track_events evs remote = foldl (\<lambda>r ev. handleTrackEvent ev r) remote evs"

subsection \<open>Handlers\<close>

text \<open>
  An \<^verbatim>\<open>async\<close> handler returns a promise. The result of a handler below is the
  exception its promise rejects with, if any, and the room it leaves. Inside a handler
  \<open>Go\<close> means that control goes on to the next statement and \<open>Stop\<close> that it left
  the \<^verbatim>\<open>try\<close> block, by \<^verbatim>\<open>return\<close> (\<open>Stop None\<close>) or by a throw.
\<close>

datatype flow = Go room | Stop "dom_exception option" room

text \<open>\<^verbatim>\<open>try { ... } catch (error) { console.error(msg, error) }\<close>\<close>

definition catch_log :: "string \<Rightarrow> dom_exception option \<times> room \<Rightarrow> dom_exception option \<times> room" where
  "catch_log msg r =
     (case r of
        (Some e, st) \<Rightarrow> (None, console_error (Caught msg e) st)
      | (None, st) \<Rightarrow> (None, st))"

text \<open>\<^verbatim>\<open>stream.getTracks().forEach((track) => peer.addTrack(track, stream))\<close>: a throw
  ends the loop, with the earlier tracks added.\<close>

fun attach_tracks :: "track list \<Rightarrow> room \<Rightarrow> dom_exception option \<times> room" where
  "attach_tracks [] st = (None, st)"
| "attach_tracks (t # ts) st =
     (case pc_addTrack t (peer st) of
        Inl e \<Rightarrow> (Some e, st\<lparr>addTrackCalls := addTrackCalls st @ [t]\<rparr>)
      | Inr pc \<Rightarrow> attach_tracks ts (st\<lparr>addTrackCalls := addTrackCalls st @ [t], peer := pc\<rparr>))"

definition attach :: "stream \<Rightarrow> room \<Rightarrow> flow" where
  "attach s st =
     (case attach_tracks (tracks s) st of
        (Some e, st1) \<Rightarrow> Stop (Some e) st1
      | (None, st1) \<Rightarrow> Go (setIsStreamsSent True st1))"

text \<open>\<^verbatim>\<open>initializeStream\<close>, lines 102 to 125; the ref is read as it is now, the
  stream as the effect closed over it. Lines 111 to 124 follow the \<^verbatim>\<open>await\<close>. The
  provider always supplies a connection, so \<^verbatim>\<open>if (peer)\<close> holds. There is no
  \<^verbatim>\<open>try\<close>: a throw of \<^verbatim>\<open>addTrack\<close> rejects the promise.\<close>

definition init_acquired :: "stream option \<Rightarrow> room \<Rightarrow> dom_exception option \<times> room" where
  "init_acquired r st =
     (case r of
        None \<Rightarrow> (None, st)
      | Some s \<Rightarrow>
          (case attach s (setMediaError None (setMyStream (Some s) st)) of
             Stop e st1 \<Rightarrow> (e, st1)
           | Go st1 \<Rightarrow> (None, st1)))"

definition initializeStream :: "(nat \<Rightarrow> hw_outcome) \<Rightarrow> react_state \<Rightarrow> room \<Rightarrow> dom_exception option \<times> room" where
  "initializeStream hw cl st =
     (if streamInitialized st \<or> myStream cl \<noteq> None then (None, st)
      else case getUserMedia hw cl 0 (st\<lparr>streamInitialized := True\<rparr>) of
             (r, st1) \<Rightarrow> init_acquired r st1)"

text \<open>\<^verbatim>\<open>handleNewUserJoin\<close>, lines 130 to 136.\<close>

definition handleNewUserJoin :: "string \<Rightarrow> string \<Rightarrow> room \<Rightarrow> dom_exception option \<times> room" where
  "handleNewUserJoin userId socketId st = (None, setRemoteSocketId socketId st)"

text \<open>\<^verbatim>\<open>handleCreateOffer\<close>, lines 138 to 181: lines 143 to 154 after the
  \<^verbatim>\<open>await\<close>, lines 157 to 163, lines 165 to 169.\<close>

definition create_acquired :: "stream option \<Rightarrow> room \<Rightarrow> flow" where
  "create_acquired r st =
     (case r of
        None \<Rightarrow> Stop None (console_error (Plain ''Failed to get media stream'') st)
      | Some s \<Rightarrow> attach s (setMyStream (Some s) st))"

definition create_attach :: "react_state \<Rightarrow> room \<Rightarrow> flow" where
  "create_attach cl st =
     (case myStream cl of
        None \<Rightarrow> Go st
      | Some s \<Rightarrow> if \<not> isStreamsSent cl then attach s st else Go st)"

definition create_send :: "browser \<Rightarrow> react_state \<Rightarrow> room \<Rightarrow> dom_exception option \<times> room" where
  "create_send b cl st =
     (case createOffer b (peer st) of
        (Inl e, pc) \<Rightarrow> (Some e, st\<lparr>peer := pc\<rparr>)
      | (Inr offer, pc) \<Rightarrow> (None, emit (EmitCreateOffer offer (remoteSocketId cl)) (st\<lparr>peer := pc\<rparr>)))"

definition create_prepare :: "(nat \<Rightarrow> hw_outcome) \<Rightarrow> react_state \<Rightarrow> room \<Rightarrow> flow" where
  "create_prepare hw cl st =
     (case myStream cl of
        Some s \<Rightarrow> create_attach cl st
      | None \<Rightarrow>
          (case getUserMedia hw cl 0
                  (console_error (Plain ''No local stream available, trying to get media...'') st) of
             (r, st1) \<Rightarrow>
               (case create_acquired r st1 of
                  Stop e st2 \<Rightarrow> Stop e st2
                | Go st2 \<Rightarrow> create_attach cl st2)))"

definition handleCreateOffer ::
  "(nat \<Rightarrow> hw_outcome) \<Rightarrow> browser \<Rightarrow> react_state \<Rightarrow> room \<Rightarrow> dom_exception option \<times> room" where
  "handleCreateOffer hw b cl st =
     catch_log ''Error creating offer:''
       (case create_prepare hw cl st of
          Stop e st1 \<Rightarrow> (e, st1)
        | Go st1 \<Rightarrow> create_send b cl st1)"

text \<open>\<^verbatim>\<open>handleIncomingOffer\<close>, lines 183 to 226: lines 210 to 217 with the
  current stream, lines 202 to 217 after the \<^verbatim>\<open>await\<close>, lines 219 and 220.\<close>

definition incoming_attach :: "react_state \<Rightarrow> stream \<Rightarrow> room \<Rightarrow> flow" where
  "incoming_attach cl s st = (if \<not> isStreamsSent cl then attach s st else Go st)"

definition incoming_acquired :: "react_state \<Rightarrow> stream option \<Rightarrow> room \<Rightarrow> flow" where
  "incoming_acquired cl r st =
     (case r of
        None \<Rightarrow> Stop None (console_error (Plain ''Failed to get media stream for incoming offer'') st)
      | Some s \<Rightarrow> incoming_attach cl s (setMyStream (Some s) st))"

definition incoming_accept :: "browser \<Rightarrow> description \<Rightarrow> string \<Rightarrow> room \<Rightarrow> dom_exception option \<times> room" where
  "incoming_accept b offer from st =
     (case acceptOffer b offer (peer st) of
        (Inl e, pc) \<Rightarrow> (Some e, st\<lparr>peer := pc\<rparr>)
      | (Inr answer, pc) \<Rightarrow> (None, emit (EmitAnswer answer from) (st\<lparr>peer := pc\<rparr>)))"

definition incoming_prepare :: "(nat \<Rightarrow> hw_outcome) \<Rightarrow> react_state \<Rightarrow> string \<Rightarrow> room \<Rightarrow> flow" where
  "incoming_prepare hw cl from st =
     (case myStream cl of
        Some s \<Rightarrow> incoming_attach cl s (setRemoteSocketId from st)
      | None \<Rightarrow>
          (case getUserMedia hw cl 0 (setRemoteSocketId from st) of
             (r, st1) \<Rightarrow> incoming_acquired cl r st1))"

definition handleIncomingOffer ::
  "(nat \<Rightarrow> hw_outcome) \<Rightarrow> browser \<Rightarrow> react_state \<Rightarrow> description \<Rightarrow> string \<Rightarrow> room \<Rightarrow>
   dom_exception option \<times> room" where
  "handleIncomingOffer hw b cl offer from st =
     catch_log ''Error handling incoming offer:''
       (case incoming_prepare hw cl from st of
          Stop e st1 \<Rightarrow> (e, st1)
        | Go st1 \<Rightarrow> incoming_accept b offer from st1)"

text \<open>\<^verbatim>\<open>handleAcceptedAnswer\<close>, lines 228 to 246: the test of line 235 is made after
  the \<^verbatim>\<open>await\<close>, on the values the callback closed over.\<close>

definition answer_settled :: "react_state \<Rightarrow> (dom_exception + unit) \<times> peer_connection \<Rightarrow> room \<Rightarrow> dom_exception option \<times> room" where
  "answer_settled cl r st =
     (case r of
        (Inl e, pc) \<Rightarrow> (Some e, st\<lparr>peer := pc\<rparr>)
      | (Inr u, pc) \<Rightarrow>
          (case myStream cl of
             None \<Rightarrow> (None, st\<lparr>peer := pc\<rparr>)
           | Some s \<Rightarrow>
               if \<not> isStreamsSent cl then
                 (case attach s (st\<lparr>peer := pc\<rparr>) of
                    Stop e st1 \<Rightarrow> (e, st1)
                  | Go st1 \<Rightarrow> (None, st1))
               else (None, st\<lparr>peer := pc\<rparr>)))"

definition handleAcceptedAnswer ::
  "browser \<Rightarrow> react_state \<Rightarrow> description \<Rightarrow> room \<Rightarrow> dom_exception option \<times> room" where
  "handleAcceptedAnswer b cl answer st =
     catch_log ''Error setting final answer:''
       (answer_settled cl (setFinalAnswer b answer (peer st)) st)"

text \<open>\<^verbatim>\<open>handleNegotiation\<close>, lines 248 to 259.\<close>

definition handleNegotiation :: "browser \<Rightarrow> react_state \<Rightarrow> room \<Rightarrow> dom_exception option \<times> room" where
  "handleNegotiation b cl st =
     catch_log ''Error during negotiation:''
       (case createOffer b (peer st) of
          (Inl e, pc) \<Rightarrow> (Some e, st\<lparr>peer := pc\<rparr>)
        | (Inr offer, pc) \<Rightarrow>
            (None, emit (EmitNegotiationNeeded offer (remoteSocketId cl)) (st\<lparr>peer := pc\<rparr>)))"

text \<open>\<^verbatim>\<open>handleNegotiationNeededIncoming\<close>, lines 268 to 285.\<close>

definition handleNegotiationNeededIncoming ::
  "browser \<Rightarrow> description \<Rightarrow> string \<Rightarrow> room \<Rightarrow> dom_exception option \<times> room" where
  "handleNegotiationNeededIncoming b offer from st =
     catch_log ''Error handling negotiation:''
       (case acceptOffer b offer (peer st) of
          (Inl e, pc) \<Rightarrow> (Some e, st\<lparr>peer := pc\<rparr>)
        | (Inr answer, pc) \<Rightarrow> (None, emit (EmitNegoDone answer from) (st\<lparr>peer := pc\<rparr>)))"

text \<open>\<^verbatim>\<open>handleFinalNegotiation\<close>, lines 287 to 297.\<close>

definition handleFinalNegotiation :: "browser \<Rightarrow> description \<Rightarrow> room \<Rightarrow> dom_exception option \<times> room" where
  "handleFinalNegotiation b answer st =
     catch_log ''Error in final negotiation:''
       (case setFinalAnswer b answer (peer st) of
          (Inl e, pc) \<Rightarrow> (Some e, st\<lparr>peer := pc\<rparr>)
        | (Inr u, pc) \<Rightarrow> (None, st\<lparr>peer := pc\<rparr>))"

text \<open>The listeners of lines 299 to 320: one handler per inbound message.\<close>

datatype in_msg =
    UserJoined string string
  | IncomingOffer description string
  | AcceptedAnswer description
  | NegotiationAccept description string
  | NegoFinal description

definition on_message ::
  "(nat \<Rightarrow> hw_outcome) \<Rightarrow> browser \<Rightarrow> react_state \<Rightarrow> in_msg \<Rightarrow> room \<Rightarrow> dom_exception option \<times> room" where
  "on_message hw b cl m st =
     (case m of
        UserJoined userId socketId \<Rightarrow> handleNewUserJoin userId socketId st
      | IncomingOffer offer from \<Rightarrow> handleIncomingOffer hw b cl offer from st
      | AcceptedAnswer answer \<Rightarrow> handleAcceptedAnswer b cl answer st
      | NegotiationAccept offer from \<Rightarrow> handleNegotiationNeededIncoming b offer from st
      | NegoFinal answer \<Rightarrow> handleFinalNegotiation b answer st)"

text \<open>\<^verbatim>\<open>retryMediaAccess\<close>, lines 357 to 376: lines 358 to 364 before the
  \<^verbatim>\<open>await\<close>, lines 367 to 375 after it. There is no \<^verbatim>\<open>try\<close>.\<close>

definition retry_release :: "react_state \<Rightarrow> room \<Rightarrow> room" where
  "retry_release cl st =
     setIsStreamsSent False
       (case myStream cl of
          None \<Rightarrow> setMediaError None (st\<lparr>streamInitialized := False\<rparr>)
        | Some s \<Rightarrow>
            setMyStream None (stop_tracks s (setMediaError None (st\<lparr>streamInitialized := False\<rparr>))))"

definition retry_acquired :: "stream option \<Rightarrow> room \<Rightarrow> dom_exception option \<times> room" where
  "retry_acquired r st =
     (case r of
        None \<Rightarrow> (None, st)
      | Some s \<Rightarrow>
          (case attach s (setMyStream (Some s) st) of
             Stop e st1 \<Rightarrow> (e, st1)
           | Go st1 \<Rightarrow> (None, st1)))"

definition retryMediaAccess :: "(nat \<Rightarrow> hw_outcome) \<Rightarrow> react_state \<Rightarrow> room \<Rightarrow> dom_exception option \<times> room" where
  "retryMediaAccess hw cl st =
     (case getUserMedia hw cl 0 (retry_release cl st) of (r, st1) \<Rightarrow> retry_acquired r st1)"

text \<open>The cleanup of the effect of lines 379 to 385, run when the page is torn down
  (and whenever \<^verbatim>\<open>myStream\<close> changes): it stops the tracks of the stream it closed
  over and calls no setter.\<close>

definition cleanup :: "react_state \<Rightarrow> room \<Rightarrow> room" where
  "cleanup cl st = (case myStream cl of None \<Rightarrow> st | Some s \<Rightarrow> stop_tracks s st)"

section \<open>The page as a transition system\<close>

text \<open>
  JavaScript runs one handler at a time, up to its next \<^verbatim>\<open>await\<close>; between two such
  runs any other handler may run. A task is a handler that is suspended at an
  \<^verbatim>\<open>await\<close>: it holds the values its closure captured and what it will do next.
  An \<^verbatim>\<open>await\<close> of one of the three engine operations is one suspension.

  A setter changes the state of the room at once, but a handler that starts does not
  see that state: a button runs the callback of the last render React has committed,
  and a listener runs the callback that the effects registered when they last ran.
  Committing a render and running its effects are events of their own.
\<close>

text \<open>Who called \<^verbatim>\<open>getUserMedia\<close> and waits for its result: \<^verbatim>\<open>initializeStream\<close>
  (line 110), \<^verbatim>\<open>handleCreateOffer\<close> (line 142), \<^verbatim>\<open>handleIncomingOffer\<close> (line
  201) or \<^verbatim>\<open>retryMediaAccess\<close> (line 366).\<close>

datatype waiter = WInit | WCreate | WIncoming description string | WRetry

datatype task =
    AwaitCamera nat nat react_state waiter
  | Backoff nat react_state waiter
  | AwaitAudioOnly nat react_state waiter
  | AwaitCreateOffer react_state
  | AwaitNegotiationOffer react_state
  | AwaitAccept description string
  | AwaitNegotiationAccept description string
  | AwaitFinalAnswer description react_state
  | AwaitNegotiationFinal description
  | Finished "dom_exception option"

text \<open>
  \<open>AwaitCamera req retryCount cl w\<close> is suspended at line 42 on hardware request \<open>req\<close>,
  \<open>Backoff retryCount cl w\<close> at the timer of line 55, \<open>AwaitAudioOnly req cl w\<close> at line
  77; the others at lines 165, 251, 219, 278, 232 and 291. \<open>Finished e\<close> is a handler
  whose promise has settled, rejected with \<open>e\<close> if there is one.
\<close>

text \<open>
  The page: the room, the values of the last committed render, the values of the
  render whose effects ran last (none before the effects of the mount have run: no
  listener is registered yet), and the tasks.
\<close>

record page =
  room :: room
  rendered :: react_state
  listening :: "react_state option"
  tasks :: "task list"

definition init_page :: page where
  "init_page = \<lparr>room = init_room, rendered = init_state, listening = None, tasks = []\<rparr>"

definition finish :: "dom_exception option \<times> room \<Rightarrow> task \<times> room" where
  "finish r = (case r of (e, st) \<Rightarrow> (Finished e, st))"

text \<open>What the caller does with the value of \<^verbatim>\<open>await getUserMedia()\<close>, up to its next
  suspension.\<close>

definition resume :: "waiter \<Rightarrow> react_state \<Rightarrow> stream option \<Rightarrow> room \<Rightarrow> task \<times> room" where
  "resume w cl r st =
     (case w of
        WInit \<Rightarrow> finish (init_acquired r st)
      | WRetry \<Rightarrow> finish (retry_acquired r st)
      | WCreate \<Rightarrow>
          (case create_acquired r st of
             Stop e st1 \<Rightarrow> finish (catch_log ''Error creating offer:'' (e, st1))
           | Go st1 \<Rightarrow>
               (case create_attach cl st1 of
                  Stop e st2 \<Rightarrow> finish (catch_log ''Error creating offer:'' (e, st2))
                | Go st2 \<Rightarrow> (AwaitCreateOffer cl, st2)))
      | WIncoming offer from \<Rightarrow>
          (case incoming_acquired cl r st of
             Stop e st1 \<Rightarrow> finish (catch_log ''Error handling incoming offer:'' (e, st1))
           | Go st1 \<Rightarrow> (AwaitAccept offer from, st1)))"

text \<open>A call \<^verbatim>\<open>getUserMedia(retryCount)\<close> by the closure \<open>cl\<close>: it returns \<^verbatim>\<open>null\<close> at
  once, or it is suspended on the hardware request it has just made.\<close>

definition call_gum :: "react_state \<Rightarrow> waiter \<Rightarrow> nat \<Rightarrow> room \<Rightarrow> task \<times> room" where
  "call_gum cl w retryCount st =
     (case gum_enter cl st of
        None \<Rightarrow> resume w cl None st
      | Some st1 \<Rightarrow> (AwaitCamera (hwCount st) retryCount cl w, st1))"

text \<open>The start of each handler, up to its first suspension; \<open>cl\<close> holds the values
  the handler closed over.\<close>

definition start_initializeStream :: "react_state \<Rightarrow> room \<Rightarrow> task \<times> room" where
  "start_initializeStream cl st =
     (if streamInitialized st \<or> myStream cl \<noteq> None then (Finished None, st)
      else call_gum cl WInit 0 (st\<lparr>streamInitialized := True\<rparr>))"

definition start_handleCreateOffer :: "react_state \<Rightarrow> room \<Rightarrow> task \<times> room" where
  "start_handleCreateOffer cl st =
     (case myStream cl of
        Some s \<Rightarrow>
          (case create_attach cl st of
             Stop e st1 \<Rightarrow> finish (catch_log ''Error creating offer:'' (e, st1))
           | Go st1 \<Rightarrow> (AwaitCreateOffer cl, st1))
      | None \<Rightarrow>
          call_gum cl WCreate 0
            (console_error (Plain ''No local stream available, trying to get media...'') st))"

definition start_handleIncomingOffer ::
  "react_state \<Rightarrow> description \<Rightarrow> string \<Rightarrow> room \<Rightarrow> task \<times> room" where
  "start_handleIncomingOffer cl offer from st =
     (case myStream cl of
        Some s \<Rightarrow>
          (case incoming_attach cl s (setRemoteSocketId from st) of
             Stop e st1 \<Rightarrow> finish (catch_log ''Error handling incoming offer:'' (e, st1))
           | Go st1 \<Rightarrow> (AwaitAccept offer from, st1))
      | None \<Rightarrow> call_gum cl (WIncoming offer from) 0 (setRemoteSocketId from st))"

definition start_retryMediaAccess :: "react_state \<Rightarrow> room \<Rightarrow> task \<times> room" where
  "start_retryMediaAccess cl st = call_gum cl WRetry 0 (retry_release cl st)"

definition start_message :: "react_state \<Rightarrow> in_msg \<Rightarrow> room \<Rightarrow> task \<times> room" where
  "start_message cl m st =
     (case m of
        UserJoined userId socketId \<Rightarrow> finish (handleNewUserJoin userId socketId st)
      | IncomingOffer offer from \<Rightarrow> start_handleIncomingOffer cl offer from st
      | AcceptedAnswer answer \<Rightarrow> (AwaitFinalAnswer answer cl, st)
      | NegotiationAccept offer from \<Rightarrow> (AwaitNegotiationAccept offer from, st)
      | NegoFinal answer \<Rightarrow> (AwaitNegotiationFinal answer, st))"

text \<open>A suspended task goes on: its hardware request settles, its timer fires, or the
  engine operation it awaits settles.\<close>

definition hw_settles :: "hw_outcome \<Rightarrow> task \<Rightarrow> room \<Rightarrow> task \<times> room" where
  "hw_settles out t st =
     (case t of
        AwaitCamera req retryCount cl w \<Rightarrow>
          (case gum_settled req retryCount out st of
             (Return r, st1) \<Rightarrow> resume w cl r st1
           | (Retry, st1) \<Rightarrow> (Backoff retryCount cl w, st1)
           | (Fallback, st1) \<Rightarrow> (AwaitAudioOnly (hwCount st) cl w, st1))
      | AwaitAudioOnly req cl w \<Rightarrow>
          (case gum_audio_settled req out st of (r, st1) \<Rightarrow> resume w cl r st1)
      | _ \<Rightarrow> (t, st))"

definition timer_fires :: "task \<Rightarrow> room \<Rightarrow> task \<times> room" where
  "timer_fires t st =
     (case t of
        Backoff retryCount cl w \<Rightarrow> call_gum cl w (retryCount + 1) st
      | _ \<Rightarrow> (t, st))"

definition engine_settles :: "browser \<Rightarrow> task \<Rightarrow> room \<Rightarrow> task \<times> room" where
  "engine_settles b t st =
     (case t of
        AwaitCreateOffer cl \<Rightarrow> finish (catch_log ''Error creating offer:'' (create_send b cl st))
      | AwaitNegotiationOffer cl \<Rightarrow> finish (handleNegotiation b cl st)
      | AwaitAccept offer from \<Rightarrow>
          finish (catch_log ''Error handling incoming offer:'' (incoming_accept b offer from st))
      | AwaitNegotiationAccept offer from \<Rightarrow> finish (handleNegotiationNeededIncoming b offer from st)
      | AwaitFinalAnswer answer cl \<Rightarrow> finish (handleAcceptedAnswer b cl answer st)
      | AwaitNegotiationFinal answer \<Rightarrow> finish (handleFinalNegotiation b answer st)
      | _ \<Rightarrow> (t, st))"

text \<open>
  The events: React commits a render of the current state; the effects of the last
  committed render run; the user presses Start Call or one of the two retry buttons,
  which the last committed render must offer; a message arrives on the socket; the
  connection fires \<^verbatim>\<open>negotiationneeded\<close> or \<^verbatim>\<open>track\<close>; the browser settles what task
  number \<open>i\<close> awaits.
\<close>

datatype event =
    Commit
  | EffectsRun
  | ClickStartCall
  | ClickRetry
  | Inbound in_msg
  | NegotiationNeeded
  | TrackArrives track_event
  | HwSettles nat hw_outcome
  | TimerFires nat
  | EngineSettles nat browser

definition spawn :: "task \<times> room \<Rightarrow> page \<Rightarrow> page" where
  "spawn r pg = (case r of (t, st) \<Rightarrow> pg\<lparr>room := st, tasks := tasks pg @ [t]\<rparr>)"

definition continue :: "nat \<Rightarrow> (task \<Rightarrow> room \<Rightarrow> task \<times> room) \<Rightarrow> page \<Rightarrow> page" where
  "continue i f pg =
     (if i < length (tasks pg)
      then case f (tasks pg ! i) (room pg) of
             (t, st) \<Rightarrow> pg\<lparr>room := st, tasks := (tasks pg)[i := t]\<rparr>
      else pg)"

text \<open>
  The effects of the last committed render. At the mount every effect runs: the
  listeners are registered and \<^verbatim>\<open>initializeStream\<close> is called (lines 101 to 128).
  Later an effect runs again when one of its dependencies has changed since the
  effects last ran: the cleanup of lines 379 to 385 when \<^verbatim>\<open>myStream\<close> has changed,
  with the stream it closed over, and \<^verbatim>\<open>initializeStream\<close> when \<^verbatim>\<open>myStream\<close> or
  \<^verbatim>\<open>getUserMedia\<close> has changed (\<^verbatim>\<open>getUserMedia\<close> is made anew when
  \<^verbatim>\<open>isGettingMedia\<close> changes, line 97). Cleanups run before effects. The listeners
  are then those of this render.
\<close>

definition effects_run :: "page \<Rightarrow> page" where
  "effects_run pg =
     (case listening pg of
        None \<Rightarrow>
          spawn (start_initializeStream (rendered pg) (room pg))
            (pg\<lparr>listening := Some (rendered pg)\<rparr>)
      | Some old \<Rightarrow>
          (let st1 = (if myStream old \<noteq> myStream (rendered pg) then cleanup old (room pg)
                      else room pg);
               pg1 = pg\<lparr>room := st1, listening := Some (rendered pg)\<rparr>
           in if myStream old \<noteq> myStream (rendered pg) \<or>
                 isGettingMedia old \<noteq> isGettingMedia (rendered pg)
              then spawn (start_initializeStream (rendered pg) st1) pg1
              else pg1))"

text \<open>A listener runs only once the effects have registered it, with the values of
  the render that registered it.\<close>

definition step :: "event \<Rightarrow> page \<Rightarrow> page" where
  "step ev pg =
     (case ev of
        Commit \<Rightarrow> pg\<lparr>rendered := state (room pg)\<rparr>
      | EffectsRun \<Rightarrow> effects_run pg
      | ClickStartCall \<Rightarrow>
          if HandleCreateOffer \<in> set (offered (render (rendered pg)))
          then spawn (start_handleCreateOffer (rendered pg) (room pg)) pg else pg
      | ClickRetry \<Rightarrow>
          if RetryMediaAccess \<in> set (offered (render (rendered pg)))
          then spawn (start_retryMediaAccess (rendered pg) (room pg)) pg else pg
      | Inbound m \<Rightarrow>
          (case listening pg of
             None \<Rightarrow> pg
           | Some cl \<Rightarrow> spawn (start_message cl m (room pg)) pg)
      | NegotiationNeeded \<Rightarrow>
          (case listening pg of
             None \<Rightarrow> pg
           | Some cl \<Rightarrow> spawn (AwaitNegotiationOffer cl, room pg) pg)
      | TrackArrives tev \<Rightarrow>
          (case listening pg of
             None \<Rightarrow> pg
           | Some cl \<Rightarrow> pg\<lparr>room := handleRemoteStream tev (room pg)\<rparr>)
      | HwSettles i out \<Rightarrow> continue i (hw_settles out) pg
      | TimerFires i \<Rightarrow> continue i timer_fires pg
      | EngineSettles i b \<Rightarrow> continue i (engine_settles b) pg)"

definition run :: "event list \<Rightarrow> page \<Rightarrow> page" where
  "run evs pg = foldl (\<lambda>p ev. step ev p) pg evs"

text \<open>The hardware request a task is waiting for, if it waits for one.\<close>

definition awaited_request :: "task \<Rightarrow> nat option" where
  "awaited_request t =
     (case t of
        AwaitCamera req retryCount cl w \<Rightarrow> Some req
      | AwaitAudioOnly req cl w \<Rightarrow> Some req
      | _ \<Rightarrow> None)"

text \<open>The hardware requests that have been made and not settled.\<close>

definition requests_of :: "task list \<Rightarrow> nat list" where
  "requests_of ts = concat (map (\<lambda>t. case awaited_request t of None \<Rightarrow> [] | Some n \<Rightarrow> [n]) ts)"

definition in_flight :: "page \<Rightarrow> nat list" where
  "in_flight pg = requests_of (tasks pg)"

subsection \<open>One handler on its own\<close>

text \<open>A bound on the hardware and timer events a task can still take part in.\<close>

fun steps_left :: "task \<Rightarrow> nat" where
  "steps_left (AwaitCamera req retryCount cl w) = 2 + 2 * (2 - retryCount)"
| "steps_left (Backoff retryCount cl w) = 3 + 2 * (2 - Suc retryCount)"
| "steps_left (AwaitAudioOnly req cl w) = 1"
| "steps_left t = 0"

text \<open>
  \<open>drive hw t st\<close> lets nothing else run: the browser settles the request the task waits
  for as \<open>hw\<close> says, the timer fires, until the task has left \<^verbatim>\<open>getUserMedia\<close>.
\<close>

function drive :: "(nat \<Rightarrow> hw_outcome) \<Rightarrow> task \<Rightarrow> room \<Rightarrow> task \<times> room" where
  "drive hw (AwaitCamera req retryCount cl w) st =
     (case hw_settles (hw req) (AwaitCamera req retryCount cl w) st of (t1, st1) \<Rightarrow> drive hw t1 st1)"
| "drive hw (Backoff retryCount cl w) st =
     (case timer_fires (Backoff retryCount cl w) st of (t1, st1) \<Rightarrow> drive hw t1 st1)"
| "drive hw (AwaitAudioOnly req cl w) st =
     (case hw_settles (hw req) (AwaitAudioOnly req cl w) st of (t1, st1) \<Rightarrow> drive hw t1 st1)"
| "drive hw (AwaitCreateOffer cl) st = (AwaitCreateOffer cl, st)"
| "drive hw (AwaitNegotiationOffer cl) st = (AwaitNegotiationOffer cl, st)"
| "drive hw (AwaitAccept offer from) st = (AwaitAccept offer from, st)"
| "drive hw (AwaitNegotiationAccept offer from) st = (AwaitNegotiationAccept offer from, st)"
| "drive hw (AwaitFinalAnswer answer cl) st = (AwaitFinalAnswer answer cl, st)"
| "drive hw (AwaitNegotiationFinal answer) st = (AwaitNegotiationFinal answer, st)"
| "drive hw (Finished e) st = (Finished e, st)"
  by pat_completeness auto
termination
proof (relation "measure (\<lambda>(hw, t, st). steps_left t)", goal_cases)
  case 1
  show ?case by simp
next
  case (2 hw req retryCount cl w st t1 st1)
  then have "steps_left t1 < 2 + 2 * (2 - retryCount)"
    by (auto simp: hw_settles_def gum_settled_def resume_def finish_def Let_def
        split: hw_outcome.splits if_splits prod.splits waiter.splits flow.splits)
  then show ?case by (simp add: 2[symmetric])
next
  case (3 hw retryCount cl w st t1 st1)
  then have "steps_left t1 < 3 + 2 * (2 - Suc retryCount)"
    by (auto simp: timer_fires_def call_gum_def resume_def finish_def
        split: option.splits prod.splits waiter.splits flow.splits)
  then show ?case by (simp add: 3[symmetric])
next
  case (4 hw req cl w st t1 st1)
  then have "steps_left t1 = 0"
    by (auto simp: hw_settles_def resume_def finish_def
        split: prod.splits waiter.splits flow.splits)
  then show ?case by (simp add: 4[symmetric])
qed

text \<open>A handler run from its start with no other handler in between: driven through
  \<^verbatim>\<open>getUserMedia\<close>, then through the engine operation it awaits, if any.\<close>

definition alone :: "(nat \<Rightarrow> hw_outcome) \<Rightarrow> browser \<Rightarrow> task \<times> room \<Rightarrow> task \<times> room" where
  "alone hw b p =
     (case p of (t, st) \<Rightarrow> (case drive hw t st of (t1, st1) \<Rightarrow> engine_settles b t1 st1))"

section \<open>Auxiliary notions and sample inputs\<close>

text \<open>The device-busy error kind of the claims: a rejection named
  \<^verbatim>\<open>NotReadableError\<close>.\<close>

definition device_busy :: "hw_outcome \<Rightarrow> bool" where
  "device_busy out = (case out of Granted \<Rightarrow> False | Rejected e \<Rightarrow> name e = ''NotReadableError'')"

text \<open>The room after a failed attempt, at line 51.\<close>

definition attempt_failed :: "nat \<Rightarrow> dom_exception \<Rightarrow> room \<Rightarrow> room" where
  "attempt_failed rc e st =
     setIsGettingMedia False (console_error (GettingMediaFailed (rc + 1) e)
       (request AudioVideo (setMediaError None (setIsGettingMedia True st))))"

text \<open>What a negotiation round changes on a connection: the signaling state and the
  four description slots.\<close>

definition round_state ::
  "peer_connection \<Rightarrow> signaling_state \<times> description option \<times> description option \<times> description option \<times> description option" where
  "round_state pc =
     (signalingState pc, currentLocalDescription pc, pendingLocalDescription pc,
      currentRemoteDescription pc, pendingRemoteDescription pc)"

text \<open>\<open>media_only st st'\<close>: the two rooms differ at most in the acquiring flag, the
  media error, the hardware trace and the console.\<close>

definition media_only :: "room \<Rightarrow> room \<Rightarrow> bool" where
  "media_only st st' =
     (peer st' = peer st \<and> addTrackCalls st' = addTrackCalls st \<and> outbox st' = outbox st \<and>
      ended st' = ended st \<and> streamInitialized st' = streamInitialized st \<and>
      myStream (state st') = myStream (state st) \<and>
      remoteSocketId (state st') = remoteSocketId (state st) \<and>
      remoteStream (state st') = remoteStream (state st) \<and>
      isStreamsSent (state st') = isStreamsSent (state st))"

text \<open>Browsers used in the sample runs: one whose camera is always busy, one that
  denies permission.\<close>

definition always_busy :: "nat \<Rightarrow> hw_outcome" where
  "always_busy n = Rejected \<lparr>name = ''NotReadableError'', message = ''Could not start video source''\<rparr>"

definition denied :: "nat \<Rightarrow> hw_outcome" where
  "denied n = Rejected \<lparr>name = ''NotAllowedError'', message = ''Permission denied''\<rparr>"

text \<open>A browser that rejects every call on the connection, one that cannot write an
  answer, descriptions from the remote side, the values of a render during a call, a
  camera that is granted, and the room after the mount effect with that camera.\<close>

definition OperationError :: dom_exception where
  "OperationError = \<lparr>name = ''OperationError'', message = ''the operation failed''\<rparr>"

definition faulty :: browser where
  "faulty = \<lparr>createOfferR = Inl OperationError, createAnswerR = Inl OperationError,
             setLocalR = Some OperationError, setRemoteR = Some OperationError\<rparr>"


definition remote_offer :: description where
  "remote_offer = \<lparr>dtype = Offer, sdp = ''offer of B'', candidates = []\<rparr>"


definition in_call :: react_state where
  "in_call = init_state\<lparr>myStream := Some (new_stream 0 AudioVideo), isStreamsSent := True,
                        remoteSocketId := ''B1''\<rparr>"

definition granting :: "nat \<Rightarrow> hw_outcome" where
  "granting n = Granted"

definition live_room :: room where
  "live_room = snd (initializeStream granting init_state init_room)"

text \<open>
  The run of C2. The effects of the mount call \<^verbatim>\<open>initializeStream\<close> (request 0);
  the camera is busy, so the first acquisition goes into its backoff; React commits
  that state and runs its effects; the user presses Retry Camera; the timer of the
  backoff fires.
\<close>

definition backoff_race :: "event list" where
  "backoff_race =
     [EffectsRun, Commit, EffectsRun, HwSettles 0 (always_busy 0), Commit, EffectsRun,
      ClickRetry, TimerFires 0]"

text \<open>
  The camera is busy three times, with a commit and the effects after every step, so
  that the first acquisition waits for its audio-only request (request 3) and the page
  on the screen shows no stream and an enabled Retry Camera button.
\<close>

definition audio_fallback_pending :: "event list" where
  "audio_fallback_pending =
     [EffectsRun, Commit, EffectsRun,
      HwSettles 0 (always_busy 0), Commit, EffectsRun, TimerFires 0, Commit, EffectsRun,
      HwSettles 0 (always_busy 1), Commit, EffectsRun, TimerFires 0, Commit, EffectsRun,
      HwSettles 0 (always_busy 2), Commit, EffectsRun]"

text \<open>
  Then the audio-only request is granted: the stream is set and its track attached.
\<close>

definition stream_granted :: "event list" where
  "stream_granted = audio_fallback_pending @ [HwSettles 0 Granted]"

text \<open>
  The user presses Retry Camera before React has committed the render with the new
  stream: the button is the one of the render on the screen.
\<close>

definition stale_retry :: "event list" where
  "stale_retry = stream_granted @ [ClickRetry]"


text \<open>
  \<^verbatim>\<open>addTrack\<close> accepts every track of the stream: no track occurs twice and none has
  a sender yet. \<open>attached s st\<close> is the room after lines 212 to 216 have then run: every
  track of the stream passed to \<^verbatim>\<open>addTrack\<close> and registered as a sender, in order,
  and the tracks-sent flag set.
\<close>

definition attachable :: "stream \<Rightarrow> room \<Rightarrow> bool" where
  "attachable s st = (distinct (tracks s) \<and> set (tracks s) \<inter> set (senders (peer st)) = {})"

definition attached :: "stream \<Rightarrow> room \<Rightarrow> room" where
  "attached s st =
     setIsStreamsSent True
       (st\<lparr>addTrackCalls := addTrackCalls st @ tracks s,
           peer := (peer st)\<lparr>senders := senders (peer st) @ tracks s\<rparr>\<rparr>)"

text \<open>
  What the claims ask of the handler of an incoming offer once it holds a stream in
  the room \<open>p\<close>: \<^verbatim>\<open>acceptOffer\<close> has run on the connection; when it succeeded, one
  \<^verbatim>\<open>answer\<close> message with its answer has gone to the sender of the offer; when it
  failed, the error has been logged and nothing has been sent.
\<close>

definition answered :: "browser \<Rightarrow> description \<Rightarrow> string \<Rightarrow> room \<Rightarrow> dom_exception option \<times> room" where
  "answered b offer from p =
     (case acceptOffer b offer (peer p) of
        (Inr answer, pc) \<Rightarrow> (None, emit (EmitAnswer answer from) (p\<lparr>peer := pc\<rparr>))
      | (Inl e, pc) \<Rightarrow>
          (None, console_error (Caught ''Error handling incoming offer:'' e) (p\<lparr>peer := pc\<rparr>)))"

text \<open>
  A first round between two new connections A and B, in which A gathers one candidate
  after it has created its offer.
\<close>

definition offer_of_A :: description where
  "offer_of_A = \<lparr>dtype = Offer, sdp = ''offer of A'', candidates = []\<rparr>"

definition answer_of_B :: description where
  "answer_of_B = \<lparr>dtype = Answer, sdp = ''answer of B'', candidates = []\<rparr>"

definition A_offering :: peer_connection where
  "A_offering = snd (createOffer (willing ''offer of A'') new_peer)"

definition B_answered :: peer_connection where
  "B_answered = snd (acceptOffer (willing ''answer of B'') offer_of_A new_peer)"

definition A_final :: peer_connection where
  "A_final = snd (setFinalAnswer (willing []) answer_of_B (pc_iceCandidate ''candidate of A'' A_offering))"

text \<open>The console after the camera has been busy three times.\<close>

definition busy_log :: "log_entry list" where
  "busy_log =
     [GettingMediaFailed 1 \<lparr>name = ''NotReadableError'', message = ''Could not start video source''\<rparr>,
      GettingMediaFailed 2 \<lparr>name = ''NotReadableError'', message = ''Could not start video source''\<rparr>,
      GettingMediaFailed 3 \<lparr>name = ''NotReadableError'', message = ''Could not start video source''\<rparr>]"

text \<open>Two track events that carry different remote streams.\<close>

definition two_streams :: "track_event list" where
  "two_streams =
     [\<lparr>ev_track = \<lparr>owner = 0, kind = Audio\<rparr>, ev_streams = [new_stream 0 AudioVideo]\<rparr>,
      \<lparr>ev_track = \<lparr>owner = 1, kind = Audio\<rparr>, ev_streams = [new_stream 1 AudioVideo]\<rparr>]"

section \<open>Properties\<close>

lemmas setters = setMyStream_def setRemoteSocketId_def setRemoteStream_def setIsStreamsSent_def
  setMediaError_def setIsGettingMedia_def console_error_def emit_def request_def sleep_def
  stop_tracks_def

subsection \<open>Media acquisition\<close>

lemma gum_busy_retry:
  "\<not> isGettingMedia cl \<Longrightarrow> rc < 2 \<Longrightarrow> hw (hwCount st) = Rejected e \<Longrightarrow>
   name e = ''NotReadableError'' \<Longrightarrow>
   getUserMedia hw cl rc st = getUserMedia hw cl (rc + 1) (sleep 1000 (attempt_failed rc e st))"
  by (subst getUserMedia.simps) (simp add: gum_enter_def gum_settled_def attempt_failed_def Let_def)

lemma gum_busy_last:
  "\<not> isGettingMedia cl \<Longrightarrow> \<not> rc < 2 \<Longrightarrow> hw (hwCount st) = Rejected e \<Longrightarrow>
   name e = ''NotReadableError'' \<Longrightarrow>
   getUserMedia hw cl rc st =
     gum_audio_settled (Suc (hwCount st)) (hw (Suc (hwCount st)))
       (request AudioOnly (attempt_failed rc e st))"
  by (subst getUserMedia.simps)
     (simp add: gum_enter_def gum_settled_def attempt_failed_def Let_def setters)

lemma gum_trace_shape:
  "\<not> isGettingMedia cl \<Longrightarrow>
   \<exists>k fb. k \<le> 2 - rc \<and>
     hwTrace (snd (getUserMedia hw cl rc st)) =
       hwTrace st @ concat (replicate k [Request AudioVideo, Sleep 1000]) @
         Request AudioVideo # (if fb then [Request AudioOnly] else [])"
proof (induction hw cl rc st rule: getUserMedia.induct)
  case (1 hw cl rc st)
  let ?st1 = "request AudioVideo (setMediaError None (setIsGettingMedia True st))"
  have enter: "gum_enter cl st = Some ?st1"
    using "1.prems" by (simp add: gum_enter_def)
  obtain n st2 where settled: "gum_settled (hwCount st) rc (hw (hwCount st)) ?st1 = (n, st2)"
    by (cases "gum_settled (hwCount st) rc (hw (hwCount st)) ?st1")
  show ?case
  proof (cases n)
    case (Return r)
    with settled have "hwTrace st2 = hwTrace st @ [Request AudioVideo]"
      by (auto simp: gum_settled_def Let_def setters split: hw_outcome.splits if_splits)
    moreover have "getUserMedia hw cl rc st = (r, st2)"
      by (subst getUserMedia.simps) (simp add: enter settled Return)
    ultimately show ?thesis
      by (intro exI[of _ 0] exI[of _ False]) simp
  next
    case Retry
    with settled have rc: "rc < 2"
      and tr: "hwTrace st2 = hwTrace st @ [Request AudioVideo, Sleep 1000]"
      by (auto simp: gum_settled_def Let_def setters split: hw_outcome.splits if_splits)
    have eq: "getUserMedia hw cl rc st = getUserMedia hw cl (rc + 1) st2"
      by (subst getUserMedia.simps) (simp add: enter settled Retry)
    from "1.IH"[OF enter settled[symmetric] Retry "1.prems"]
    obtain k fb where k: "k \<le> 2 - (rc + 1)"
      and t: "hwTrace (snd (getUserMedia hw cl (rc + 1) st2)) =
        hwTrace st2 @ concat (replicate k [Request AudioVideo, Sleep 1000]) @
          Request AudioVideo # (if fb then [Request AudioOnly] else [])"
      by blast
    show ?thesis
      using k t rc by (intro exI[of _ "Suc k"] exI[of _ fb]) (simp add: eq tr)
  next
    case Fallback
    with settled have tr: "hwTrace st2 = hwTrace st @ [Request AudioVideo, Request AudioOnly]"
      by (auto simp: gum_settled_def Let_def setters split: hw_outcome.splits if_splits)
    have eq: "getUserMedia hw cl rc st = gum_audio_settled (hwCount ?st1) (hw (hwCount ?st1)) st2"
      by (subst getUserMedia.simps) (simp add: enter settled Fallback)
    have "hwTrace (snd (gum_audio_settled (hwCount ?st1) (hw (hwCount ?st1)) st2)) = hwTrace st2"
      by (simp add: gum_audio_settled_def setters split: hw_outcome.splits)
    then show ?thesis
      by (intro exI[of _ 0] exI[of _ True]) (simp add: eq tr)
  qed
qed

lemma gum_three_busy:
  assumes cl: "\<not> isGettingMedia cl"
    and b0: "device_busy (hw (hwCount st))"
    and b1: "device_busy (hw (hwCount st + 1))"
    and b2: "device_busy (hw (hwCount st + 2))"
  shows "\<exists>st3. hwCount st3 = hwCount st + 4 \<and>
    hwTrace st3 = hwTrace st @ [Request AudioVideo, Sleep 1000, Request AudioVideo, Sleep 1000,
      Request AudioVideo, Request AudioOnly] \<and>
    getUserMedia hw cl 0 st = gum_audio_settled (hwCount st + 3) (hw (hwCount st + 3)) st3"
proof -
  from b0 obtain e0 where e0: "hw (hwCount st) = Rejected e0" "name e0 = ''NotReadableError''"
    by (auto simp: device_busy_def split: hw_outcome.splits)
  define s1 where "s1 = sleep 1000 (attempt_failed 0 e0 st)"
  have c1: "hwCount s1 = hwCount st + 1"
    and t1: "hwTrace s1 = hwTrace st @ [Request AudioVideo, Sleep 1000]"
    by (simp_all add: s1_def attempt_failed_def setters)
  from b1 c1 obtain e1 where e1: "hw (hwCount s1) = Rejected e1" "name e1 = ''NotReadableError''"
    by (auto simp: device_busy_def split: hw_outcome.splits)
  define s2 where "s2 = sleep 1000 (attempt_failed 1 e1 s1)"
  have c2: "hwCount s2 = hwCount st + 2"
    and t2: "hwTrace s2 = hwTrace s1 @ [Request AudioVideo, Sleep 1000]"
    by (simp_all add: s2_def attempt_failed_def setters c1)
  from b2 c2 obtain e2 where e2: "hw (hwCount s2) = Rejected e2" "name e2 = ''NotReadableError''"
    by (auto simp: device_busy_def split: hw_outcome.splits)
  define s3 where "s3 = request AudioOnly (attempt_failed 2 e2 s2)"
  have c3: "hwCount s3 = hwCount st + 4"
    and t3: "hwTrace s3 = hwTrace s2 @ [Request AudioVideo, Request AudioOnly]"
    by (simp_all add: s3_def attempt_failed_def setters c2)
  have "getUserMedia hw cl 0 st = getUserMedia hw cl 1 s1"
    using gum_busy_retry[of cl 0 hw st e0] cl e0 by (simp add: s1_def)
  also have "\<dots> = getUserMedia hw cl 2 s2"
    using gum_busy_retry[of cl 1 hw s1 e1] cl e1 by (simp add: s2_def numeral_2_eq_2)
  also have "\<dots> = gum_audio_settled (Suc (hwCount s2)) (hw (Suc (hwCount s2))) s3"
    using gum_busy_last[of cl 2 hw s2 e2] cl e2 by (simp add: s3_def)
  finally have "getUserMedia hw cl 0 st = gum_audio_settled (hwCount st + 3) (hw (hwCount st + 3)) s3"
    by (simp add: c2 eval_nat_numeral)
  with c3 t1 t2 t3 show ?thesis
    by (intro exI[of _ s3]) simp
qed

text \<open>
  C1. A call that gets past the guard makes at most three camera and microphone
  requests, with a one second timer after each but the last, and then at most one
  audio-only request, whatever the browser answers. When the first three requests are
  rejected as device busy, the run is exactly three requests with two timers and one
  audio-only request; the call returns the audio-only stream when that request is
  granted, and \<^verbatim>\<open>null\<close> with the camera-in-use message when it is rejected too. The
  function is total (its termination is proved with the definition), so no sequence
  of errors keeps it retrying.
\<close>

theorem getUserMedia_busy_retries_bounded:
  assumes "\<not> isGettingMedia cl"
  shows "(\<exists>k fb. k \<le> 2 \<and>
       hwTrace (snd (getUserMedia hw cl 0 st)) =
         hwTrace st @ concat (replicate k [Request AudioVideo, Sleep 1000]) @
           Request AudioVideo # (if fb then [Request AudioOnly] else [])) \<and>
     (device_busy (hw (hwCount st)) \<and> device_busy (hw (hwCount st + 1)) \<and>
      device_busy (hw (hwCount st + 2)) \<longrightarrow>
        hwTrace (snd (getUserMedia hw cl 0 st)) =
          hwTrace st @ [Request AudioVideo, Sleep 1000, Request AudioVideo, Sleep 1000,
            Request AudioVideo, Request AudioOnly] \<and>
        fst (getUserMedia hw cl 0 st) =
          (case hw (hwCount st + 3) of
             Granted \<Rightarrow> Some (new_stream (hwCount st + 3) AudioOnly)
           | Rejected e \<Rightarrow> None) \<and>
        mediaError (state (snd (getUserMedia hw cl 0 st))) =
          Some (case hw (hwCount st + 3) of
                  Granted \<Rightarrow> ''Camera unavailable (might be in use). Using audio-only mode.''
                | Rejected e \<Rightarrow> ''Camera is in use by another application. Please close other applications using the camera.''))"
proof (intro conjI impI)
  show "\<exists>k fb. k \<le> 2 \<and>
       hwTrace (snd (getUserMedia hw cl 0 st)) =
         hwTrace st @ concat (replicate k [Request AudioVideo, Sleep 1000]) @
           Request AudioVideo # (if fb then [Request AudioOnly] else [])"
    using gum_trace_shape[OF assms, of 0 hw st] by simp
next
  assume busy: "device_busy (hw (hwCount st)) \<and> device_busy (hw (hwCount st + 1)) \<and>
      device_busy (hw (hwCount st + 2))"
  then obtain st3 where tr: "hwTrace st3 = hwTrace st @ [Request AudioVideo, Sleep 1000,
      Request AudioVideo, Sleep 1000, Request AudioVideo, Request AudioOnly]"
    and run: "getUserMedia hw cl 0 st = gum_audio_settled (hwCount st + 3) (hw (hwCount st + 3)) st3"
    using gum_three_busy[OF assms, of hw st] by blast
  show "hwTrace (snd (getUserMedia hw cl 0 st)) =
          hwTrace st @ [Request AudioVideo, Sleep 1000, Request AudioVideo, Sleep 1000,
            Request AudioVideo, Request AudioOnly]"
    by (simp add: run tr gum_audio_settled_def setters split: hw_outcome.splits)
  show "fst (getUserMedia hw cl 0 st) =
          (case hw (hwCount st + 3) of
             Granted \<Rightarrow> Some (new_stream (hwCount st + 3) AudioOnly)
           | Rejected e \<Rightarrow> None)"
    by (simp add: run gum_audio_settled_def split: hw_outcome.splits)
  show "mediaError (state (snd (getUserMedia hw cl 0 st))) =
          Some (case hw (hwCount st + 3) of
                  Granted \<Rightarrow> ''Camera unavailable (might be in use). Using audio-only mode.''
                | Rejected e \<Rightarrow> ''Camera is in use by another application. Please close other applications using the camera.'')"
    by (simp add: run gum_audio_settled_def setters split: hw_outcome.splits)
qed

theorem getUserMedia_busy_retries_bounded_witness:
  "hwTrace (snd (getUserMedia always_busy init_state 0 init_room)) =
     [Request AudioVideo, Sleep 1000, Request AudioVideo, Sleep 1000, Request AudioVideo,
      Request AudioOnly] \<and>
   fst (getUserMedia always_busy init_state 0 init_room) = None \<and>
   mediaError (state (snd (getUserMedia always_busy init_state 0 init_room))) =
     Some ''Camera is in use by another application. Please close other applications using the camera.''"
  using getUserMedia_busy_retries_bounded[of init_state always_busy init_room]
  by (simp add: init_state_def init_room_def always_busy_def device_busy_def)

lemma gum_denied:
  assumes "\<not> isGettingMedia cl" and "hw (hwCount st) = Rejected e"
    and "name e = ''NotAllowedError''"
  shows "getUserMedia hw cl rc st =
    (None,
     setMediaError (Some ''Camera/microphone access denied. Please allow permissions and refresh the page.'')
       (attempt_failed rc e st))"
  using assms
  by (subst getUserMedia.simps)
     (simp add: gum_enter_def gum_settled_def Let_def attempt_failed_def)

text \<open>
  C6, as the code has it. When a request is rejected with \<^verbatim>\<open>NotAllowedError\<close>, at any
  attempt, the call returns \<^verbatim>\<open>null\<close> with the access-denied message, having made
  that one request and started no timer and no audio-only request. The page then
  shows the message in the error banner together with the Retry button that every
  media error gets, and the Retry Camera button of the row below is enabled.
\<close>

theorem getUserMedia_permission_denied:
  assumes "\<not> isGettingMedia cl" and "hw (hwCount st) = Rejected e"
    and "name e = ''NotAllowedError''"
  shows "fst (getUserMedia hw cl rc st) = None \<and>
     hwTrace (snd (getUserMedia hw cl rc st)) = hwTrace st @ [Request AudioVideo] \<and>
     mediaError (state (snd (getUserMedia hw cl rc st))) =
       Some ''Camera/microphone access denied. Please allow permissions and refresh the page.'' \<and>
     banner (render (state (snd (getUserMedia hw cl rc st)))) =
       Some (''Camera/microphone access denied. Please allow permissions and refresh the page.'',
             \<lparr>label = ''Retry'', onClick = RetryMediaAccess, disabled = False\<rparr>) \<and>
     last (controls (render (state (snd (getUserMedia hw cl rc st))))) =
       \<lparr>label = ''Retry Camera'', onClick = RetryMediaAccess, disabled = False\<rparr>"
proof -
  have "getUserMedia hw cl rc st =
    (None,
     setMediaError (Some ''Camera/microphone access denied. Please allow permissions and refresh the page.'')
       (attempt_failed rc e st))"
    using assms by (rule gum_denied)
  then show ?thesis
    by (simp add: attempt_failed_def setters render_def)
qed

theorem getUserMedia_permission_denied_witness:
  "fst (getUserMedia denied init_state 0 init_room) = None \<and>
   hwTrace (snd (getUserMedia denied init_state 0 init_room)) = [Request AudioVideo] \<and>
   banner (render (state (snd (getUserMedia denied init_state 0 init_room)))) =
       Some (''Camera/microphone access denied. Please allow permissions and refresh the page.'',
             \<lparr>label = ''Retry'', onClick = RetryMediaAccess, disabled = False\<rparr>)"
  using getUserMedia_permission_denied[where cl = init_state and hw = denied and st = init_room
      and rc = 0 and e = "\<lparr>name = ''NotAllowedError'', message = ''Permission denied''\<rparr>"]
  by (simp add: init_state_def init_room_def denied_def)

text \<open>
  C6 as stated fails: after a denied permission on a fresh page, the actions the page
  offers are the Retry button of the banner, Debug Connection and Retry Camera, so
  the retry action is offered twice.
\<close>

theorem permission_denied_offers_retry:
  "offered (render (state (snd (getUserMedia denied init_state 0 init_room)))) =
     [RetryMediaAccess, DebugPeerConnection, RetryMediaAccess]"
proof -
  have "getUserMedia denied init_state 0 init_room =
    (None,
     setMediaError (Some ''Camera/microphone access denied. Please allow permissions and refresh the page.'')
       (attempt_failed 0 \<lparr>name = ''NotAllowedError'', message = ''Permission denied''\<rparr> init_room))"
    by (rule gum_denied) (simp_all add: init_state_def denied_def)
  then show ?thesis
    by (simp add: attempt_failed_def setters render_def offered_def init_state_def init_room_def)
qed

subsection \<open>Remote tracks\<close>

lemma track_events_snoc:
  "track_events (evs @ [ev]) st = handleRemoteStream ev (track_events evs st)"
  by (simp add: track_events_def)

lemma provider_track_events_snoc:
  "provider_track_events (evs @ [ev]) r = handleTrackEvent ev (provider_track_events evs r)"
  by (simp add: provider_track_events_def)

text \<open>
  C9, as the code has it. After any sequence of track events the remote stream of the
  page is the first stream of the last event that carried a stream (and what it was
  before when no event carried one): each such event replaces the stream, so the last
  one wins. The remote stream of the provider is the first stream of the last event,
  or nothing when that event carried none.
\<close>

theorem last_track_event_wins:
  "remoteStream (state (track_events evs st)) =
     (case filter (\<lambda>ev. ev_streams ev \<noteq> []) evs of
        [] \<Rightarrow> remoteStream (state st)
      | e # es \<Rightarrow> Some (hd (ev_streams (last (e # es))))) \<and>
   provider_track_events evs r =
     (if evs = [] then r else case ev_streams (last evs) of [] \<Rightarrow> None | s # ss \<Rightarrow> Some s)"
proof (induction evs rule: rev_induct)
  case Nil
  show ?case by (simp add: track_events_def provider_track_events_def)
next
  case (snoc ev evs)
  then show ?case
    by (cases "ev_streams ev")
       (auto simp: track_events_snoc provider_track_events_snoc handleRemoteStream_def
          handleTrackEvent_def setters split: list.splits)
qed

text \<open>
  C9 as stated fails: of two events with different streams, the first surfaces stream
  0, and the second replaces it by stream 1, in the page and in the provider.
\<close>

theorem first_stream_does_not_win:
  "remoteStream (state (track_events (take 1 two_streams) init_room)) = Some (new_stream 0 AudioVideo) \<and>
   remoteStream (state (track_events two_streams init_room)) = Some (new_stream 1 AudioVideo) \<and>
   provider_track_events two_streams None = Some (new_stream 1 AudioVideo) \<and>
   new_stream 1 AudioVideo \<noteq> new_stream 0 AudioVideo"
  by (simp add: two_streams_def track_events_def provider_track_events_def handleRemoteStream_def
      handleTrackEvent_def setters new_stream_def init_room_def init_state_def)

subsection \<open>The accessor hooks\<close>

text \<open>
  C10. Without a provider the context value is \<^verbatim>\<open>null\<close> and both hooks throw;
  a hook returns a value exactly when a provider supplied it, and then it returns that
  value.
\<close>

theorem hooks_fail_closed:
  "usePeer None = Inl (Error ''User peer must be in a provider'') \<and>
   useSocket None = Inl (Error ''Socket Is intialize'') \<and>
   (usePeer ctx = Inr p) = (ctx = Some p) \<and>
   (useSocket sctx = Inr s) = (sctx = Some s)"
  by (auto simp: usePeer_def useSocket_def split: option.splits)

subsection \<open>What the handlers leave alone\<close>

lemma media_only_refl: "media_only st st"
  by (simp add: media_only_def)

lemma media_only_trans: "media_only a b \<Longrightarrow> media_only b c \<Longrightarrow> media_only a c"
  by (simp add: media_only_def)

lemma gum_enter_media_only: "gum_enter cl st = Some st1 \<Longrightarrow> media_only st st1"
  by (auto simp: gum_enter_def media_only_def setters split: if_splits)

lemma gum_settled_media_only: "gum_settled req rc out st = (n, st1) \<Longrightarrow> media_only st st1"
  by (auto simp: gum_settled_def media_only_def setters Let_def split: hw_outcome.splits if_splits)

lemma gum_audio_settled_media_only: "gum_audio_settled req out st = (r, st1) \<Longrightarrow> media_only st st1"
  by (auto simp: gum_audio_settled_def media_only_def setters split: hw_outcome.splits)

lemma getUserMedia_media_only: "media_only st (snd (getUserMedia hw cl rc st))"
proof (induction hw cl rc st rule: getUserMedia.induct)
  case (1 hw cl rc st)
  show ?case
  proof (cases "gum_enter cl st")
    case None
    then show ?thesis
      by (subst getUserMedia.simps) (simp add: media_only_refl)
  next
    case (Some st1)
    obtain n st2 where settled: "gum_settled (hwCount st) rc (hw (hwCount st)) st1 = (n, st2)"
      by (cases "gum_settled (hwCount st) rc (hw (hwCount st)) st1")
    have m2: "media_only st st2"
      using gum_enter_media_only[OF Some] gum_settled_media_only[OF settled]
      by (rule media_only_trans)
    show ?thesis
    proof (cases n)
      case (Return r)
      then show ?thesis
        by (subst getUserMedia.simps) (simp add: Some settled m2)
    next
      case Retry
      have "media_only st2 (snd (getUserMedia hw cl (rc + 1) st2))"
        by (rule "1.IH"[OF Some settled[symmetric] Retry])
      with m2 have "media_only st (snd (getUserMedia hw cl (rc + 1) st2))"
        by (rule media_only_trans)
      then show ?thesis
        by (subst getUserMedia.simps) (simp add: Some settled Retry)
    next
      case Fallback
      obtain r st3 where a: "gum_audio_settled (hwCount st1) (hw (hwCount st1)) st2 = (r, st3)"
        by (cases "gum_audio_settled (hwCount st1) (hw (hwCount st1)) st2")
      from m2 gum_audio_settled_media_only[OF a] have "media_only st st3"
        by (rule media_only_trans)
      then show ?thesis
        by (subst getUserMedia.simps) (simp add: Some settled Fallback a)
    qed
  qed
qed

lemma gum_granted:
  "\<not> isGettingMedia cl \<Longrightarrow> hw (hwCount st) = Granted \<Longrightarrow>
   getUserMedia hw cl rc st =
     (Some (new_stream (hwCount st) AudioVideo),
      setIsGettingMedia False (request AudioVideo (setMediaError None (setIsGettingMedia True st))))"
  by (subst getUserMedia.simps) (simp add: gum_enter_def gum_settled_def)

lemma attach_tracks_round:
  "attach_tracks ts st = (e, st1) \<Longrightarrow>
   round_state (peer st1) = round_state (peer st) \<and> outbox st1 = outbox st \<and>
   console st1 = console st \<and> state st1 = state st"
  by (induction ts arbitrary: st)
     (auto simp: pc_addTrack_def round_state_def split: if_splits)

lemma attach_round:
  "attach s st = Go st1 \<or> attach s st = Stop e st1 \<Longrightarrow>
   round_state (peer st1) = round_state (peer st) \<and> outbox st1 = outbox st"
  by (auto simp: attach_def setters split: prod.splits option.splits dest: attach_tracks_round)




lemma gum_keeps:
  assumes "getUserMedia hw cl rc st = (r, st1)"
  shows "peer st1 = peer st" and "outbox st1 = outbox st" and "addTrackCalls st1 = addTrackCalls st"
    and "ended st1 = ended st" and "myStream (state st1) = myStream (state st)"
    and "isStreamsSent (state st1) = isStreamsSent (state st)"
  using getUserMedia_media_only[of st hw cl rc] assms by (simp_all add: media_only_def)





subsection \<open>Negotiation\<close>

lemma gather_Cons: "gather (c # cs) pc = gather cs (pc_iceCandidate c pc)"
  by (simp add: gather_def)

lemma gather_local:
  "pendingLocalDescription pc \<noteq> None \<or> currentLocalDescription pc \<noteq> None \<Longrightarrow>
   gather cs pc = pc\<lparr>gathered := gathered pc @ cs\<rparr>"
proof (induction cs arbitrary: pc)
  case Nil
  show ?case by (simp add: gather_def)
next
  case (Cons c cs)
  from Cons.prems have step: "pc_iceCandidate c pc = pc\<lparr>gathered := gathered pc @ [c]\<rparr>"
    by (auto simp: pc_iceCandidate_def)
  have "gather cs (pc\<lparr>gathered := gathered pc @ [c]\<rparr>) =
      pc\<lparr>gathered := gathered pc @ [c]\<rparr>\<lparr>gathered := gathered (pc\<lparr>gathered := gathered pc @ [c]\<rparr>) @ cs\<rparr>"
    using Cons.prems by (intro Cons.IH) simp
  then show ?case by (simp add: gather_Cons step)
qed

text \<open>
  C3, as the browser has it. Two connections in the stable state, a browser that
  rejects nothing: after \<^verbatim>\<open>createOffer\<close> on A, \<^verbatim>\<open>acceptOffer\<close> of that offer on B
  and \<^verbatim>\<open>setFinalAnswer\<close> of B's answer on A, all three succeed and both connections
  are stable. The remote description of each side is the description the other side
  sent. The local description of each side is the description it sent together with
  the candidates it has gathered since (\<open>ca\<close> on A, \<open>cb\<close> on B), which the program
  never sends: local and remote description agree exactly when no candidate has been
  gathered since the description was created.
\<close>

theorem offer_answer_round_trip:
  assumes "signalingState a = Stable" and "signalingState b = Stable"
    and "createOfferR ba = Inr ta" and "setLocalR ba = None"
    and "setRemoteR bb = None" and "createAnswerR bb = Inr tb" and "setLocalR bb = None"
    and "setRemoteR bc = None"
  shows "\<exists>offer answer a1 a2 b1.
     createOffer ba a = (Inr offer, a1) \<and>
     acceptOffer bb offer b = (Inr answer, b1) \<and>
     setFinalAnswer bc answer (gather ca a1) = (Inr (), a2) \<and>
     signalingState a2 = Stable \<and> signalingState (gather cb b1) = Stable \<and>
     remoteDescription (gather cb b1) = Some offer \<and>
     remoteDescription a2 = Some answer \<and>
     localDescription a2 = Some (offer\<lparr>candidates := candidates offer @ ca\<rparr>) \<and>
     localDescription (gather cb b1) = Some (answer\<lparr>candidates := candidates answer @ cb\<rparr>) \<and>
     (localDescription a2 = remoteDescription (gather cb b1)) = (ca = []) \<and>
     (localDescription (gather cb b1) = remoteDescription a2) = (cb = [])"
proof -
  define offer where "offer = \<lparr>dtype = Offer, sdp = ta, candidates = gathered a\<rparr>"
  define a1 where "a1 = a\<lparr>signalingState := HaveLocalOffer, pendingLocalDescription := Some offer\<rparr>"
  define answer where "answer = \<lparr>dtype = Answer, sdp = tb, candidates = gathered b\<rparr>"
  define b1 where "b1 = b\<lparr>signalingState := Stable, currentLocalDescription := Some answer,
      currentRemoteDescription := Some offer, pendingLocalDescription := None,
      pendingRemoteDescription := None\<rparr>"
  define a2 where "a2 = a\<lparr>signalingState := Stable, currentRemoteDescription := Some answer,
      currentLocalDescription := Some offer, pendingLocalDescription := None,
      pendingRemoteDescription := None, gathered := gathered a @ ca\<rparr>"
  have c: "createOffer ba a = (Inr offer, a1)"
    using assms by (simp add: createOffer_def pc_createOffer_def pc_setLocalDescription_def
        offer_def a1_def)
  have acc: "acceptOffer bb offer b = (Inr answer, b1)"
    using assms by (simp add: acceptOffer_def pc_setRemoteDescription_def pc_createAnswer_def
        pc_setLocalDescription_def offer_def answer_def b1_def)
  have ga: "gather ca a1 = a1\<lparr>gathered := gathered a1 @ ca\<rparr>"
    by (rule gather_local) (simp add: a1_def)
  have gb: "gather cb b1 = b1\<lparr>gathered := gathered b1 @ cb\<rparr>"
    by (rule gather_local) (simp add: b1_def)
  have f: "setFinalAnswer bc answer (gather ca a1) = (Inr (), a2)"
    unfolding ga using assms
    by (simp add: setFinalAnswer_def pc_setRemoteDescription_def answer_def a1_def a2_def)
  have la: "localDescription a2 = Some (offer\<lparr>candidates := candidates offer @ ca\<rparr>)"
    by (simp add: localDescription_def a2_def offer_def)
  have lb: "localDescription (gather cb b1) = Some (answer\<lparr>candidates := candidates answer @ cb\<rparr>)"
    unfolding gb by (simp add: localDescription_def b1_def answer_def)
  have ra: "remoteDescription a2 = Some answer"
    by (simp add: remoteDescription_def a2_def)
  have rb: "remoteDescription (gather cb b1) = Some offer"
    unfolding gb by (simp add: remoteDescription_def b1_def)
  have ea: "(localDescription a2 = remoteDescription (gather cb b1)) = (ca = [])"
    by (auto simp: la rb offer_def)
  have eb: "(localDescription (gather cb b1) = remoteDescription a2) = (cb = [])"
    by (auto simp: lb ra answer_def)
  have sa: "signalingState a2 = Stable" by (simp add: a2_def)
  have sb: "signalingState (gather cb b1) = Stable" unfolding gb by (simp add: b1_def)
  from c acc f sa sb rb ra la lb ea eb show ?thesis by blast
qed

theorem offer_answer_round_trip_witness:
  "\<exists>offer answer a1 a2 b1.
     createOffer (willing ''offer of A'') new_peer = (Inr offer, a1) \<and>
     acceptOffer (willing ''answer of B'') offer new_peer = (Inr answer, b1) \<and>
     setFinalAnswer (willing []) answer (gather [''candidate of A''] a1) = (Inr (), a2) \<and>
     signalingState a2 = Stable \<and> signalingState (gather [] b1) = Stable \<and>
     remoteDescription (gather [] b1) = Some offer \<and>
     remoteDescription a2 = Some answer \<and>
     localDescription a2 = Some (offer\<lparr>candidates := candidates offer @ [''candidate of A'']\<rparr>) \<and>
     localDescription (gather [] b1) = Some (answer\<lparr>candidates := candidates answer @ []\<rparr>) \<and>
     localDescription a2 \<noteq> remoteDescription (gather [] b1) \<and>
     localDescription (gather [] b1) = remoteDescription a2"
  using offer_answer_round_trip[of new_peer new_peer "willing ''offer of A''" "''offer of A''"
      "willing ''answer of B''" "''answer of B''" "willing []" "[''candidate of A'']" "[]"]
  by (simp add: willing_def new_peer_def)

text \<open>
  C3 as stated fails: in a first round in which A gathers one candidate after creating
  its offer, all three operations succeed and both sides are stable, but the local
  description of A holds the candidate and the remote description of B does not.
\<close>

theorem gathered_candidate_breaks_match:
  "createOffer (willing ''offer of A'') new_peer = (Inr offer_of_A, A_offering) \<and>
   acceptOffer (willing ''answer of B'') offer_of_A new_peer = (Inr answer_of_B, B_answered) \<and>
   setFinalAnswer (willing []) answer_of_B (pc_iceCandidate ''candidate of A'' A_offering) =
     (Inr (), A_final) \<and>
   signalingState A_final = Stable \<and> signalingState B_answered = Stable \<and>
   localDescription A_final =
     Some \<lparr>dtype = Offer, sdp = ''offer of A'', candidates = [''candidate of A'']\<rparr> \<and>
   remoteDescription B_answered =
     Some \<lparr>dtype = Offer, sdp = ''offer of A'', candidates = []\<rparr> \<and>
   localDescription A_final \<noteq> remoteDescription B_answered"
  by (simp add: A_final_def B_answered_def A_offering_def offer_of_A_def answer_of_B_def
      createOffer_def acceptOffer_def setFinalAnswer_def pc_createOffer_def pc_createAnswer_def
      pc_setLocalDescription_def pc_setRemoteDescription_def pc_iceCandidate_def
      localDescription_def remoteDescription_def willing_def new_peer_def)

subsection \<open>Handlers of the room page\<close>


lemma live_room_eq:
  "live_room = init_room\<lparr>state := init_state\<lparr>myStream := Some (new_stream 0 AudioVideo), isStreamsSent := True\<rparr>,
     streamInitialized := True,
     peer := new_peer\<lparr>senders := [\<lparr>owner = 0, kind = Audio\<rparr>, \<lparr>owner = 0, kind = Video\<rparr>]\<rparr>,
     addTrackCalls := [\<lparr>owner = 0, kind = Audio\<rparr>, \<lparr>owner = 0, kind = Video\<rparr>],
     hwTrace := [Request AudioVideo], hwCount := 1\<rparr>"
proof -
  have "getUserMedia granting init_state 0 (init_room\<lparr>streamInitialized := True\<rparr>) =
     (Some (new_stream (hwCount (init_room\<lparr>streamInitialized := True\<rparr>)) AudioVideo),
      setIsGettingMedia False (request AudioVideo (setMediaError None (setIsGettingMedia True (init_room\<lparr>streamInitialized := True\<rparr>)))))"
    by (rule gum_granted) (simp_all add: init_state_def granting_def)
  then show ?thesis
    by (simp add: live_room_def initializeStream_def init_acquired_def attach_def new_stream_def
        pc_addTrack_def setters init_room_def init_state_def new_peer_def)
qed

lemma peer_update_same: "st\<lparr>peer := peer st\<rparr> = st"
  by simp






lemma catch_log_outbox: "outbox (snd (catch_log msg (e, st))) = outbox st"
  by (cases e) (simp_all add: catch_log_def setters)

lemma attach_tracks_ok:
  "distinct ts \<Longrightarrow> set ts \<inter> set (senders (peer st)) = {} \<Longrightarrow>
   attach_tracks ts st =
     (None, st\<lparr>addTrackCalls := addTrackCalls st @ ts,
               peer := (peer st)\<lparr>senders := senders (peer st) @ ts\<rparr>\<rparr>)"
  by (induction ts arbitrary: st) (auto simp: pc_addTrack_def)

lemma attach_tracks_throws:
  "\<not> (distinct ts \<and> set ts \<inter> set (senders (peer st)) = {}) \<Longrightarrow>
   \<exists>st1. attach_tracks ts st = (Some InvalidAccessError, st1)"
proof (induction ts arbitrary: st)
  case Nil
  then show ?case by simp
next
  case (Cons t ts)
  show ?case
  proof (cases "t \<in> set (senders (peer st))")
    case True
    then show ?thesis by (simp add: pc_addTrack_def)
  next
    case False
    let ?st = "st\<lparr>addTrackCalls := addTrackCalls st @ [t],
                  peer := (peer st)\<lparr>senders := senders (peer st) @ [t]\<rparr>\<rparr>"
    from Cons.prems False
    have "\<not> (distinct ts \<and> set ts \<inter> set (senders (peer ?st)) = {})"
      by auto
    from Cons.IH[OF this] False show ?thesis
      by (simp add: pc_addTrack_def)
  qed
qed

lemma attach_ok: "attachable s st \<Longrightarrow> attach s st = Go (attached s st)"
  by (simp add: attachable_def attach_def attached_def attach_tracks_ok)

lemma attach_throws:
  assumes "\<not> attachable s st"
  shows "\<exists>st1. attach s st = Stop (Some InvalidAccessError) st1 \<and> outbox st1 = outbox st \<and>
     round_state (peer st1) = round_state (peer st) \<and> console st1 = console st"
proof -
  from assms obtain st1 where a: "attach_tracks (tracks s) st = (Some InvalidAccessError, st1)"
    using attach_tracks_throws[of "tracks s" st] by (auto simp: attachable_def)
  from attach_tracks_round[OF a] a show ?thesis
    by (simp add: attach_def)
qed

lemma incoming_answered:
  "handleIncomingOffer hw b cl offer from st =
     (case incoming_prepare hw cl from st of
        Stop e st1 \<Rightarrow> catch_log ''Error handling incoming offer:'' (e, st1)
      | Go p \<Rightarrow> answered b offer from p)"
  by (simp add: handleIncomingOffer_def incoming_accept_def answered_def catch_log_def
      split: flow.splits prod.splits sum.splits)

text \<open>
  C4, as the code has it. An incoming offer reaches \<^verbatim>\<open>acceptOffer\<close> when the handler
  holds a stream: the stream of the render it closed over, or, when that render had
  none, the stream that \<^verbatim>\<open>getUserMedia\<close> returns (it returns one when the handler may
  ask and the camera is granted). When the handler's render says that the tracks have
  not been sent, every track of the stream is first passed to \<^verbatim>\<open>addTrack\<close>, which
  must accept them. Then \<^verbatim>\<open>acceptOffer\<close> runs on the connection, and when it succeeds
  the reply is one \<^verbatim>\<open>answer\<close> message with its answer, addressed to the sender; when
  it fails the error is logged and nothing is sent. When \<^verbatim>\<open>getUserMedia\<close> returns
  no stream, the handler logs that and returns: nothing is sent and the connection is
  untouched. When \<^verbatim>\<open>addTrack\<close> throws, the error is logged, nothing is sent and the
  round is untouched. A \<^verbatim>\<open>negotiation-accept\<close> runs \<^verbatim>\<open>acceptOffer\<close> and sends
  \<^verbatim>\<open>nego-done\<close> to the sender when it succeeds. \<^verbatim>\<open>accepted-answer\<close> and
  \<^verbatim>\<open>nego-final\<close> run \<^verbatim>\<open>setFinalAnswer\<close> and send nothing.
\<close>

theorem inbound_routing:
  "(myStream cl = Some s \<and> isStreamsSent cl \<longrightarrow>
      on_message hw b cl (IncomingOffer offer from) st =
        answered b offer from (setRemoteSocketId from st)) \<and>
   (myStream cl = Some s \<and> \<not> isStreamsSent cl \<and> attachable s st \<longrightarrow>
      on_message hw b cl (IncomingOffer offer from) st =
        answered b offer from (attached s (setRemoteSocketId from st))) \<and>
   (myStream cl = None \<and> getUserMedia hw cl 0 (setRemoteSocketId from st) = (Some s, st1) \<and>
    isStreamsSent cl \<longrightarrow>
      on_message hw b cl (IncomingOffer offer from) st =
        answered b offer from (setMyStream (Some s) st1)) \<and>
   (myStream cl = None \<and> getUserMedia hw cl 0 (setRemoteSocketId from st) = (Some s, st1) \<and>
    \<not> isStreamsSent cl \<and> attachable s st \<longrightarrow>
      on_message hw b cl (IncomingOffer offer from) st =
        answered b offer from (attached s (setMyStream (Some s) st1))) \<and>
   (myStream cl = None \<and> getUserMedia hw cl 0 (setRemoteSocketId from st) = (None, st1) \<longrightarrow>
      on_message hw b cl (IncomingOffer offer from) st =
        (None, console_error (Plain ''Failed to get media stream for incoming offer'') st1) \<and>
      outbox st1 = outbox st \<and> peer st1 = peer st) \<and>
   ((myStream cl = Some s \<or>
     myStream cl = None \<and> fst (getUserMedia hw cl 0 (setRemoteSocketId from st)) = Some s) \<and>
    \<not> isStreamsSent cl \<and> \<not> attachable s st \<longrightarrow>
      outbox (snd (on_message hw b cl (IncomingOffer offer from) st)) = outbox st \<and>
      round_state (peer (snd (on_message hw b cl (IncomingOffer offer from) st))) =
        round_state (peer st) \<and>
      last (console (snd (on_message hw b cl (IncomingOffer offer from) st))) =
        Caught ''Error handling incoming offer:'' InvalidAccessError) \<and>
   (\<not> isGettingMedia cl \<and> hw (hwCount st) = Granted \<longrightarrow>
      fst (getUserMedia hw cl 0 (setRemoteSocketId from st)) =
        Some (new_stream (hwCount st) AudioVideo)) \<and>
   on_message hw b cl (NegotiationAccept offer from) st =
     (case acceptOffer b offer (peer st) of
        (Inr answer, pc) \<Rightarrow> (None, emit (EmitNegoDone answer from) (st\<lparr>peer := pc\<rparr>))
      | (Inl e, pc) \<Rightarrow>
          (None, console_error (Caught ''Error handling negotiation:'' e) (st\<lparr>peer := pc\<rparr>))) \<and>
   outbox (snd (on_message hw b cl (AcceptedAnswer answer) st)) = outbox st \<and>
   round_state (peer (snd (on_message hw b cl (AcceptedAnswer answer) st))) =
     round_state (snd (setFinalAnswer b answer (peer st))) \<and>
   on_message hw b cl (NegoFinal answer) st =
     (case setFinalAnswer b answer (peer st) of
        (Inr u, pc) \<Rightarrow> (None, st\<lparr>peer := pc\<rparr>)
      | (Inl e, pc) \<Rightarrow>
          (None, console_error (Caught ''Error in final negotiation:'' e) (st\<lparr>peer := pc\<rparr>)))"
proof (intro conjI impI)
  assume "myStream cl = Some s \<and> isStreamsSent cl"
  then show "on_message hw b cl (IncomingOffer offer from) st =
      answered b offer from (setRemoteSocketId from st)"
    by (simp add: on_message_def incoming_answered incoming_prepare_def incoming_attach_def)
next
  assume a: "myStream cl = Some s \<and> \<not> isStreamsSent cl \<and> attachable s st"
  then have "attachable s (setRemoteSocketId from st)"
    by (simp add: attachable_def setters)
  from attach_ok[OF this] a
  show "on_message hw b cl (IncomingOffer offer from) st =
      answered b offer from (attached s (setRemoteSocketId from st))"
    by (simp add: on_message_def incoming_answered incoming_prepare_def incoming_attach_def)
next
  assume "myStream cl = None \<and> getUserMedia hw cl 0 (setRemoteSocketId from st) = (Some s, st1) \<and>
    isStreamsSent cl"
  then show "on_message hw b cl (IncomingOffer offer from) st =
      answered b offer from (setMyStream (Some s) st1)"
    by (simp add: on_message_def incoming_answered incoming_prepare_def incoming_acquired_def
        incoming_attach_def)
next
  assume a: "myStream cl = None \<and> getUserMedia hw cl 0 (setRemoteSocketId from st) = (Some s, st1) \<and>
    \<not> isStreamsSent cl \<and> attachable s st"
  then have g: "getUserMedia hw cl 0 (setRemoteSocketId from st) = (Some s, st1)" by simp
  have "peer (setMyStream (Some s) st1) = peer st"
    using gum_keeps(1)[OF g] by (simp add: setters)
  with a have "attachable s (setMyStream (Some s) st1)"
    by (simp add: attachable_def)
  from attach_ok[OF this] a
  show "on_message hw b cl (IncomingOffer offer from) st =
      answered b offer from (attached s (setMyStream (Some s) st1))"
    by (simp add: on_message_def incoming_answered incoming_prepare_def incoming_acquired_def
        incoming_attach_def)
next
  assume a: "myStream cl = None \<and> getUserMedia hw cl 0 (setRemoteSocketId from st) = (None, st1)"
  then have g: "getUserMedia hw cl 0 (setRemoteSocketId from st) = (None, st1)" by simp
  from a show "on_message hw b cl (IncomingOffer offer from) st =
      (None, console_error (Plain ''Failed to get media stream for incoming offer'') st1)"
    by (simp add: on_message_def incoming_answered incoming_prepare_def incoming_acquired_def
        catch_log_def)
  show "outbox st1 = outbox st" using gum_keeps(2)[OF g] by (simp add: setters)
  show "peer st1 = peer st" using gum_keeps(1)[OF g] by (simp add: setters)
next
  assume a: "(myStream cl = Some s \<or>
     myStream cl = None \<and> fst (getUserMedia hw cl 0 (setRemoteSocketId from st)) = Some s) \<and>
    \<not> isStreamsSent cl \<and> \<not> attachable s st"
  have "\<exists>st2. on_message hw b cl (IncomingOffer offer from) st =
      (None, console_error (Caught ''Error handling incoming offer:'' InvalidAccessError) st2) \<and>
      outbox st2 = outbox st \<and> round_state (peer st2) = round_state (peer st)"
  proof (cases "myStream cl")
    case (Some s')
    with a have s': "s' = s" by simp
    from a have "\<not> attachable s (setRemoteSocketId from st)"
      by (simp add: attachable_def setters)
    from attach_throws[OF this] obtain st2 where
      t: "attach s (setRemoteSocketId from st) = Stop (Some InvalidAccessError) st2"
      and k: "outbox st2 = outbox st" "round_state (peer st2) = round_state (peer st)"
      by (auto simp: setters)
    from a Some s' t have "on_message hw b cl (IncomingOffer offer from) st =
        (None, console_error (Caught ''Error handling incoming offer:'' InvalidAccessError) st2)"
      by (simp add: on_message_def incoming_answered incoming_prepare_def incoming_attach_def
          catch_log_def)
    with k show ?thesis by blast
  next
    case None
    obtain r st1' where g: "getUserMedia hw cl 0 (setRemoteSocketId from st) = (r, st1')"
      by (cases "getUserMedia hw cl 0 (setRemoteSocketId from st)")
    with a None have r: "r = Some s" by simp
    have keep: "peer st1' = peer st" "outbox st1' = outbox st"
      using gum_keeps(1,2)[OF g] by (simp_all add: setters)
    with a have "\<not> attachable s (setMyStream (Some s) st1')"
      by (simp add: attachable_def setters)
    from attach_throws[OF this] keep obtain st2 where
      t: "attach s (setMyStream (Some s) st1') = Stop (Some InvalidAccessError) st2"
      and k: "outbox st2 = outbox st" "round_state (peer st2) = round_state (peer st)"
      by (auto simp: setters)
    from a None g r t have "on_message hw b cl (IncomingOffer offer from) st =
        (None, console_error (Caught ''Error handling incoming offer:'' InvalidAccessError) st2)"
      by (simp add: on_message_def incoming_answered incoming_prepare_def incoming_acquired_def
          incoming_attach_def catch_log_def)
    with k show ?thesis by blast
  qed
  then obtain st2 where h: "on_message hw b cl (IncomingOffer offer from) st =
      (None, console_error (Caught ''Error handling incoming offer:'' InvalidAccessError) st2)"
    and k: "outbox st2 = outbox st" "round_state (peer st2) = round_state (peer st)"
    by blast
  show "outbox (snd (on_message hw b cl (IncomingOffer offer from) st)) = outbox st"
    using k by (simp add: h setters)
  show "round_state (peer (snd (on_message hw b cl (IncomingOffer offer from) st))) =
      round_state (peer st)"
    using k by (simp add: h setters)
  show "last (console (snd (on_message hw b cl (IncomingOffer offer from) st))) =
      Caught ''Error handling incoming offer:'' InvalidAccessError"
    by (simp add: h setters)
next
  assume "\<not> isGettingMedia cl \<and> hw (hwCount st) = Granted"
  then show "fst (getUserMedia hw cl 0 (setRemoteSocketId from st)) =
      Some (new_stream (hwCount st) AudioVideo)"
    using gum_granted[of cl hw "setRemoteSocketId from st" 0] by (simp add: setters)
next
  show "on_message hw b cl (NegotiationAccept offer from) st =
     (case acceptOffer b offer (peer st) of
        (Inr answer, pc) \<Rightarrow> (None, emit (EmitNegoDone answer from) (st\<lparr>peer := pc\<rparr>))
      | (Inl e, pc) \<Rightarrow>
          (None, console_error (Caught ''Error handling negotiation:'' e) (st\<lparr>peer := pc\<rparr>)))"
    by (simp add: on_message_def handleNegotiationNeededIncoming_def catch_log_def
        split: prod.splits sum.splits)
next
  obtain r pc where f: "setFinalAnswer b answer (peer st) = (r, pc)"
    by (cases "setFinalAnswer b answer (peer st)")
  obtain e st1 where s: "answer_settled cl (r, pc) st = (e, st1)"
    by (cases "answer_settled cl (r, pc) st")
  have k: "outbox st1 = outbox st \<and> round_state (peer st1) = round_state pc"
    using s
    by (auto simp: answer_settled_def split: sum.splits option.splits if_splits flow.splits
        dest!: attach_round[OF disjI1] attach_round[OF disjI2])
  have h: "on_message hw b cl (AcceptedAnswer answer) st =
      catch_log ''Error setting final answer:'' (e, st1)"
    by (simp add: on_message_def handleAcceptedAnswer_def f s)
  show "outbox (snd (on_message hw b cl (AcceptedAnswer answer) st)) = outbox st"
    using k by (simp add: h catch_log_outbox)
  show "round_state (peer (snd (on_message hw b cl (AcceptedAnswer answer) st))) =
     round_state (snd (setFinalAnswer b answer (peer st)))"
    using k by (cases e) (simp_all add: h f catch_log_def setters)
next
  show "on_message hw b cl (NegoFinal answer) st =
     (case setFinalAnswer b answer (peer st) of
        (Inr u, pc) \<Rightarrow> (None, st\<lparr>peer := pc\<rparr>)
      | (Inl e, pc) \<Rightarrow>
          (None, console_error (Caught ''Error in final negotiation:'' e) (st\<lparr>peer := pc\<rparr>)))"
    by (simp add: on_message_def handleFinalNegotiation_def catch_log_def
        split: prod.splits sum.splits)
qed

theorem inbound_routing_witness:
  "fst (getUserMedia granting init_state 0 (setRemoteSocketId ''B1'' init_room)) =
     Some (new_stream 0 AudioVideo) \<and>
   outbox (snd (on_message granting (willing ''answer of A'') init_state
     (IncomingOffer remote_offer ''B1'') init_room)) =
     [EmitAnswer \<lparr>dtype = Answer, sdp = ''answer of A'', candidates = []\<rparr> ''B1''] \<and>
   addTrackCalls (snd (on_message granting (willing ''answer of A'') init_state
     (IncomingOffer remote_offer ''B1'') init_room)) =
     [\<lparr>owner = 0, kind = Audio\<rparr>, \<lparr>owner = 0, kind = Video\<rparr>] \<and>
   remoteDescription (peer (snd (on_message granting (willing ''answer of A'') init_state
     (IncomingOffer remote_offer ''B1'') init_room))) = Some remote_offer \<and>
   outbox (snd (on_message granting (willing ''answer of A'') (init_state\<lparr>isStreamsSent := True\<rparr>)
     (IncomingOffer remote_offer ''B1'') init_room)) =
     [EmitAnswer \<lparr>dtype = Answer, sdp = ''answer of A'', candidates = []\<rparr> ''B1''] \<and>
   addTrackCalls (snd (on_message granting (willing ''answer of A'') (init_state\<lparr>isStreamsSent := True\<rparr>)
     (IncomingOffer remote_offer ''B1'') init_room)) = [] \<and>
   outbox (snd (on_message granting (willing ''answer of A'') (in_call\<lparr>isStreamsSent := False\<rparr>)
     (IncomingOffer remote_offer ''B1'') init_room)) =
     [EmitAnswer \<lparr>dtype = Answer, sdp = ''answer of A'', candidates = []\<rparr> ''B1''] \<and>
   addTrackCalls (snd (on_message granting (willing ''answer of A'') (in_call\<lparr>isStreamsSent := False\<rparr>)
     (IncomingOffer remote_offer ''B1'') init_room)) =
     [\<lparr>owner = 0, kind = Audio\<rparr>, \<lparr>owner = 0, kind = Video\<rparr>] \<and>
   on_message granting (willing ''answer of A'') in_call (IncomingOffer remote_offer ''B1'') live_room =
     (None, emit (EmitAnswer \<lparr>dtype = Answer, sdp = ''answer of A'', candidates = []\<rparr> ''B1'')
        (setRemoteSocketId ''B1'' live_room
           \<lparr>peer := snd (acceptOffer (willing ''answer of A'') remote_offer (peer live_room))\<rparr>)) \<and>
   outbox (snd (on_message granting faulty in_call (IncomingOffer remote_offer ''B1'') live_room)) = [] \<and>
   outbox (snd (on_message denied (willing ''answer of A'') init_state
     (IncomingOffer remote_offer ''B1'') init_room)) = [] \<and>
   outbox (snd (on_message granting (willing ''answer of A'') (in_call\<lparr>isStreamsSent := False\<rparr>)
     (IncomingOffer remote_offer ''B1'') live_room)) = [] \<and>
   last (console (snd (on_message granting (willing ''answer of A'') (in_call\<lparr>isStreamsSent := False\<rparr>)
     (IncomingOffer remote_offer ''B1'') live_room))) =
     Caught ''Error handling incoming offer:'' InvalidAccessError"
proof -
  let ?s = "new_stream 0 AudioVideo"
  let ?w = "willing ''answer of A''"
  let ?sent = "init_state\<lparr>isStreamsSent := True\<rparr>"
  let ?unsent = "in_call\<lparr>isStreamsSent := False\<rparr>"
  let ?g = "setIsGettingMedia False (request AudioVideo (setMediaError None
      (setIsGettingMedia True (setRemoteSocketId ''B1'' init_room))))"
  let ?d = "setMediaError (Some ''Camera/microphone access denied. Please allow permissions and refresh the page.'')
       (attempt_failed 0 \<lparr>name = ''NotAllowedError'', message = ''Permission denied''\<rparr>
          (setRemoteSocketId ''B1'' init_room))"
  have m: "myStream init_state = None" "\<not> isStreamsSent init_state" "\<not> isGettingMedia init_state"
    "myStream ?sent = None" "isStreamsSent ?sent" "\<not> isGettingMedia ?sent"
    by (simp_all add: init_state_def)
  have h: "granting (hwCount init_room) = Granted" "hwCount init_room = 0"
    by (simp_all add: granting_def init_room_def)
  have f: "fst (getUserMedia granting init_state 0 (setRemoteSocketId ''B1'' init_room)) = Some ?s"
    using inbound_routing[of init_state ?s granting ?w remote_offer "''B1''" init_room ?g] m h
    by simp
  have g: "getUserMedia granting init_state 0 (setRemoteSocketId ''B1'' init_room) = (Some ?s, ?g)"
    using gum_granted[of init_state granting "setRemoteSocketId ''B1'' init_room" 0]
    by (simp add: init_state_def granting_def init_room_def setters)
  have g': "getUserMedia granting ?sent 0 (setRemoteSocketId ''B1'' init_room) = (Some ?s, ?g)"
    using gum_granted[of ?sent granting "setRemoteSocketId ''B1'' init_room" 0]
    by (simp add: init_state_def granting_def init_room_def setters)
  have a0: "attachable ?s init_room"
    by (simp add: attachable_def new_stream_def init_room_def new_peer_def)
  have r1: "on_message granting ?w init_state (IncomingOffer remote_offer ''B1'') init_room =
      answered ?w remote_offer ''B1'' (attached ?s (setMyStream (Some ?s) ?g))"
    using inbound_routing[of init_state ?s granting ?w remote_offer "''B1''" init_room ?g] m g a0
    by simp
  have r1': "on_message granting ?w ?sent (IncomingOffer remote_offer ''B1'') init_room =
      answered ?w remote_offer ''B1'' (setMyStream (Some ?s) ?g)"
    using inbound_routing[of ?sent ?s granting ?w remote_offer "''B1''" init_room ?g] m g'
    by simp
  have c: "myStream in_call = Some ?s" "isStreamsSent in_call"
    by (simp_all add: in_call_def init_state_def)
  have n: "myStream ?unsent = Some ?s" "\<not> isStreamsSent ?unsent" "\<not> attachable ?s live_room"
    by (simp_all add: in_call_def init_state_def attachable_def live_room_eq new_stream_def)
  have r1'': "on_message granting ?w ?unsent (IncomingOffer remote_offer ''B1'') init_room =
      answered ?w remote_offer ''B1'' (attached ?s (setRemoteSocketId ''B1'' init_room))"
    using inbound_routing[of ?unsent ?s granting ?w remote_offer "''B1''" init_room] n a0
    by simp
  have r2: "on_message granting ?w in_call (IncomingOffer remote_offer ''B1'') live_room =
      answered ?w remote_offer ''B1'' (setRemoteSocketId ''B1'' live_room)"
    using inbound_routing[of in_call ?s granting ?w remote_offer "''B1''" live_room] c
    by simp
  have r3: "on_message granting faulty in_call (IncomingOffer remote_offer ''B1'') live_room =
      answered faulty remote_offer ''B1'' (setRemoteSocketId ''B1'' live_room)"
    using inbound_routing[of in_call ?s granting faulty remote_offer "''B1''" live_room] c
    by simp
  have d: "getUserMedia denied init_state 0 (setRemoteSocketId ''B1'' init_room) = (None, ?d)"
    by (rule gum_denied) (simp_all add: init_state_def denied_def)
  have r4: "outbox ?d = outbox init_room \<and>
      on_message denied ?w init_state (IncomingOffer remote_offer ''B1'') init_room =
      (None, console_error (Plain ''Failed to get media stream for incoming offer'') ?d)"
    using inbound_routing[of init_state ?s denied ?w remote_offer "''B1''" init_room ?d] m d
    by simp
  have r5: "outbox (snd (on_message granting ?w ?unsent (IncomingOffer remote_offer ''B1'') live_room)) =
      outbox live_room \<and>
    last (console (snd (on_message granting ?w ?unsent (IncomingOffer remote_offer ''B1'') live_room))) =
      Caught ''Error handling incoming offer:'' InvalidAccessError"
    using inbound_routing[of ?unsent ?s granting ?w remote_offer "''B1''" live_room] n
    by simp
  have o: "outbox live_room = []" "outbox init_room = []"
    by (simp_all add: live_room_eq init_room_def)
  have e2: "answered ?w remote_offer ''B1'' (setRemoteSocketId ''B1'' live_room) =
      (None, emit (EmitAnswer \<lparr>dtype = Answer, sdp = ''answer of A'', candidates = []\<rparr> ''B1'')
        (setRemoteSocketId ''B1'' live_room
           \<lparr>peer := snd (acceptOffer ?w remote_offer (peer live_room))\<rparr>))"
    by (simp add: answered_def live_room_eq acceptOffer_def pc_setRemoteDescription_def
        pc_createAnswer_def pc_setLocalDescription_def willing_def remote_offer_def setters
        init_room_def new_peer_def)
  have e3: "outbox (snd (answered faulty remote_offer ''B1'' (setRemoteSocketId ''B1'' live_room))) = []"
    by (simp add: answered_def live_room_eq acceptOffer_def pc_setRemoteDescription_def
        faulty_def setters init_room_def)
  show ?thesis
    unfolding f r1 r1' r1'' r2 r3 e2 e3 using r4 r5
    by (simp add: o answered_def attached_def acceptOffer_def pc_setRemoteDescription_def
        pc_createAnswer_def pc_setLocalDescription_def willing_def remote_offer_def setters
        init_room_def new_peer_def new_stream_def remoteDescription_def)
qed

text \<open>
  C4 as stated fails: on a fresh page whose camera permission is denied, an incoming
  offer that \<^verbatim>\<open>acceptOffer\<close> would have answered is dropped: nothing is sent and
  the connection is untouched.
\<close>

theorem offer_without_media_not_answered:
  "fst (acceptOffer (willing ''answer of A'') remote_offer (peer init_room)) =
     Inr \<lparr>dtype = Answer, sdp = ''answer of A'', candidates = []\<rparr> \<and>
   outbox (snd (on_message denied (willing ''answer of A'') init_state
     (IncomingOffer remote_offer ''B1'') init_room)) = [] \<and>
   peer (snd (on_message denied (willing ''answer of A'') init_state
     (IncomingOffer remote_offer ''B1'') init_room)) = new_peer \<and>
   console (snd (on_message denied (willing ''answer of A'') init_state
     (IncomingOffer remote_offer ''B1'') init_room)) =
     [GettingMediaFailed 1 \<lparr>name = ''NotAllowedError'', message = ''Permission denied''\<rparr>,
      Plain ''Failed to get media stream for incoming offer'']"
proof -
  have g: "getUserMedia denied init_state 0 (setRemoteSocketId ''B1'' init_room) =
    (None,
     setMediaError (Some ''Camera/microphone access denied. Please allow permissions and refresh the page.'')
       (attempt_failed 0 \<lparr>name = ''NotAllowedError'', message = ''Permission denied''\<rparr>
          (setRemoteSocketId ''B1'' init_room)))"
    by (rule gum_denied) (simp_all add: init_state_def denied_def)
  have m: "myStream init_state = None"
    by (simp add: init_state_def)
  have h: "on_message denied (willing ''answer of A'') init_state
      (IncomingOffer remote_offer ''B1'') init_room =
    (None, console_error (Plain ''Failed to get media stream for incoming offer'')
       (setMediaError (Some ''Camera/microphone access denied. Please allow permissions and refresh the page.'')
          (attempt_failed 0 \<lparr>name = ''NotAllowedError'', message = ''Permission denied''\<rparr>
             (setRemoteSocketId ''B1'' init_room))))"
    by (simp add: on_message_def handleIncomingOffer_def incoming_prepare_def incoming_acquired_def
        g m catch_log_def)
  show ?thesis
    unfolding h
    by (simp add: attempt_failed_def setters init_room_def acceptOffer_def
        pc_setRemoteDescription_def pc_createAnswer_def pc_setLocalDescription_def willing_def
        remote_offer_def new_peer_def)
qed

section \<open>Interleaved handlers\<close>

subsection \<open>One handler on its own\<close>

text \<open>Run with no other handler in between, a task of the transition system does what
  the handler does when it is run to its end in one go.\<close>

lemma drive_resume: "resume w cl r st = (t1, st1) \<Longrightarrow> drive hw t1 st1 = (t1, st1)"
  by (auto simp: resume_def finish_def split: waiter.splits flow.splits prod.splits)

lemma drive_call_gum:
  "(case call_gum cl w rc st of (t, st0) \<Rightarrow> drive hw t st0) =
   (case getUserMedia hw cl rc st of (r, st1) \<Rightarrow> resume w cl r st1)"
proof (induction hw cl rc st rule: getUserMedia.induct)
  case (1 hw cl rc st)
  show ?case
  proof (cases "gum_enter cl st")
    case None
    obtain t1 st1 where r: "resume w cl None st = (t1, st1)" by (cases "resume w cl None st")
    have "getUserMedia hw cl rc st = (None, st)"
      by (subst getUserMedia.simps) (simp add: None)
    with r drive_resume[OF r, of hw] show ?thesis
      by (simp add: call_gum_def None)
  next
    case (Some st1)
    obtain n st2 where settled: "gum_settled (hwCount st) rc (hw (hwCount st)) st1 = (n, st2)"
      by (cases "gum_settled (hwCount st) rc (hw (hwCount st)) st1")
    have lhs: "(case call_gum cl w rc st of (t, st0) \<Rightarrow> drive hw t st0) =
        (case hw_settles (hw (hwCount st)) (AwaitCamera (hwCount st) rc cl w) st1 of
           (t1, st3) \<Rightarrow> drive hw t1 st3)"
      by (simp add: call_gum_def Some)
    show ?thesis
    proof (cases n)
      case (Return r)
      obtain t1 st3 where r3: "resume w cl r st2 = (t1, st3)" by (cases "resume w cl r st2")
      have "getUserMedia hw cl rc st = (r, st2)"
        by (subst getUserMedia.simps) (simp add: Some settled Return)
      with r3 drive_resume[OF r3, of hw] show ?thesis
        by (simp add: lhs hw_settles_def settled Return)
    next
      case Retry
      have g: "getUserMedia hw cl rc st = getUserMedia hw cl (rc + 1) st2"
        by (subst getUserMedia.simps) (simp add: Some settled Retry)
      have "(case call_gum cl w rc st of (t, st0) \<Rightarrow> drive hw t st0) =
          (case call_gum cl w (rc + 1) st2 of (t, st0) \<Rightarrow> drive hw t st0)"
        by (simp add: lhs hw_settles_def settled Retry timer_fires_def)
      also have "\<dots> = (case getUserMedia hw cl (rc + 1) st2 of (r, st1) \<Rightarrow> resume w cl r st1)"
        by (rule "1.IH"[OF Some settled[symmetric] Retry])
      finally show ?thesis by (simp add: g)
    next
      case Fallback
      obtain r st3 where a: "gum_audio_settled (hwCount st1) (hw (hwCount st1)) st2 = (r, st3)"
        by (cases "gum_audio_settled (hwCount st1) (hw (hwCount st1)) st2")
      obtain t1 st4 where r4: "resume w cl r st3 = (t1, st4)" by (cases "resume w cl r st3")
      have "getUserMedia hw cl rc st = (r, st3)"
        by (subst getUserMedia.simps) (simp add: Some settled Fallback a)
      with r4 drive_resume[OF r4, of hw] show ?thesis
        by (simp add: lhs hw_settles_def settled Fallback a)
    qed
  qed
qed


lemma alone_finish: "alone hw b (finish r) = finish r"
  by (cases r) (simp add: alone_def finish_def engine_settles_def)

lemma alone_call_gum:
  "alone hw b (call_gum cl w rc st) =
   (case getUserMedia hw cl rc st of (r, st1) \<Rightarrow>
      (case resume w cl r st1 of (t, st2) \<Rightarrow> engine_settles b t st2))"
proof -
  obtain r st1 where g: "getUserMedia hw cl rc st = (r, st1)" by (cases "getUserMedia hw cl rc st")
  obtain t st0 where c: "call_gum cl w rc st = (t, st0)" by (cases "call_gum cl w rc st")
  from drive_call_gum[where cl = cl and w = w and rc = rc and st = st and hw = hw] have "drive hw t st0 = resume w cl r st1"
    by (simp add: g c)
  then show ?thesis by (simp add: alone_def g c)
qed

lemma engine_finish: "engine_settles b (Finished e) st = (Finished e, st)"
  by (simp add: engine_settles_def)

lemma alone_initializeStream:
  "alone hw b (start_initializeStream cl st) = finish (initializeStream hw cl st)"
proof (cases "streamInitialized st \<or> myStream cl \<noteq> None")
  case True
  then show ?thesis
    by (simp add: start_initializeStream_def initializeStream_def alone_def finish_def engine_finish)
next
  case False
  then show ?thesis
    by (simp add: start_initializeStream_def initializeStream_def alone_call_gum resume_def
        finish_def engine_finish split: prod.splits)
qed

lemma alone_retryMediaAccess:
  "alone hw b (start_retryMediaAccess cl st) = finish (retryMediaAccess hw cl st)"
  by (simp add: start_retryMediaAccess_def retryMediaAccess_def alone_call_gum resume_def
      finish_def engine_finish split: prod.splits)

lemma alone_handleCreateOffer:
  "alone hw b (start_handleCreateOffer cl st) = finish (handleCreateOffer hw b cl st)"
proof (cases "myStream cl")
  case (Some s)
  show ?thesis
  proof (cases "create_attach cl st")
    case (Go st1)
    with Some show ?thesis
      by (simp add: start_handleCreateOffer_def handleCreateOffer_def create_prepare_def
          alone_def engine_settles_def)
  next
    case (Stop e st1)
    with Some show ?thesis
      by (simp add: start_handleCreateOffer_def handleCreateOffer_def create_prepare_def
          alone_finish)
  qed
next
  case None
  then show ?thesis
    by (simp add: start_handleCreateOffer_def handleCreateOffer_def create_prepare_def
        alone_call_gum resume_def finish_def engine_finish engine_settles_def
        split: prod.splits flow.splits)
qed

lemma alone_handleIncomingOffer:
  "alone hw b (start_handleIncomingOffer cl offer from st) =
   finish (handleIncomingOffer hw b cl offer from st)"
proof (cases "myStream cl")
  case (Some s)
  show ?thesis
  proof (cases "incoming_attach cl s (setRemoteSocketId from st)")
    case (Go st1)
    with Some show ?thesis
      by (simp add: start_handleIncomingOffer_def handleIncomingOffer_def incoming_prepare_def
          alone_def engine_settles_def)
  next
    case (Stop e st1)
    with Some show ?thesis
      by (simp add: start_handleIncomingOffer_def handleIncomingOffer_def incoming_prepare_def
          alone_finish)
  qed
next
  case None
  then show ?thesis
    by (simp add: start_handleIncomingOffer_def handleIncomingOffer_def incoming_prepare_def
        alone_call_gum resume_def finish_def engine_finish engine_settles_def
        split: prod.splits flow.splits)
qed

lemma alone_message:
  "alone hw b (start_message cl m st) = finish (on_message hw b cl m st)"
  by (cases m)
     (simp_all add: start_message_def on_message_def alone_finish alone_handleIncomingOffer,
      simp_all add: alone_def engine_settles_def)

lemma alone_negotiation:
  "alone hw b (AwaitNegotiationOffer cl, st) = finish (handleNegotiation b cl st)"
  by (simp add: alone_def engine_settles_def)

subsection \<open>The acquiring flag\<close>

lemmas step_defs = run_def step_def effects_run_def spawn_def continue_def start_initializeStream_def
  start_retryMediaAccess_def call_gum_def hw_settles_def timer_fires_def gum_enter_def
  gum_settled_def gum_audio_settled_def retry_release_def resume_def finish_def cleanup_def


text \<open>
  C2. The first acquisition is in its backoff, React has committed that state and run
  its effects: the acquiring flag is off and the page on the screen offers Retry
  Camera. The press starts a second acquisition (request 1) and turns the flag on.
  When the timer fires, the first run calls \<^verbatim>\<open>getUserMedia(1)\<close> through its own
  closure, which still holds the flag as off: it makes request 2 while request 1 is
  in flight and the flag is on.
\<close>

theorem second_request_during_backoff:
  "isGettingMedia (state (room (run (take 6 backoff_race) init_page))) = False \<and>
   tasks (run (take 6 backoff_race) init_page) =
     [Backoff 0 init_state WInit, Finished None, Finished None] \<and>
   offered (render (rendered (run (take 6 backoff_race) init_page))) =
     [DebugPeerConnection, RetryMediaAccess] \<and>
   isGettingMedia (state (room (run (take 7 backoff_race) init_page))) = True \<and>
   in_flight (run (take 7 backoff_race) init_page) = [1] \<and>
   in_flight (run backoff_race init_page) = [2, 1] \<and>
   hwTrace (room (run backoff_race init_page)) =
     [Request AudioVideo, Sleep 1000, Request AudioVideo, Request AudioVideo]"
  by (simp add: backoff_race_def step_defs always_busy_def init_page_def init_room_def init_state_def
      setters render_def offered_def in_flight_def requests_of_def awaited_request_def Let_def)

subsection \<open>A retry from the render on the screen\<close>

text \<open>The runs, step by step.\<close>

lemma run_append: "run (xs @ ys) pg = run ys (run xs pg)"
  by (simp add: run_def)

lemma audio_fallback_pending_run:
  "run audio_fallback_pending init_page =
     \<lparr>room = init_room
        \<lparr>streamInitialized := True,
          hwTrace := [Request AudioVideo, Sleep 1000, Request AudioVideo, Sleep 1000,
                      Request AudioVideo, Request AudioOnly],
          hwCount := 4,
          console := busy_log\<rparr>,
      rendered = init_state, listening = Some init_state,
      tasks = [AwaitAudioOnly 3 init_state WInit, Finished None, Finished None, Finished None,
               Finished None, Finished None, Finished None]\<rparr>"
  by (simp add: audio_fallback_pending_def step_defs always_busy_def init_page_def init_room_def init_state_def
      setters Let_def busy_log_def)

lemma stream_granted_run:
  "run stream_granted init_page =
     \<lparr>room = init_room
        \<lparr>state := init_state\<lparr>myStream := Some (new_stream 3 AudioOnly), isStreamsSent := True\<rparr>,
          streamInitialized := True,
          peer := new_peer\<lparr>senders := [\<lparr>owner = 3, kind = Audio\<rparr>]\<rparr>,
          addTrackCalls := [\<lparr>owner = 3, kind = Audio\<rparr>],
          hwTrace := [Request AudioVideo, Sleep 1000, Request AudioVideo, Sleep 1000,
                      Request AudioVideo, Request AudioOnly],
          hwCount := 4,
          console := busy_log\<rparr>,
      rendered = init_state, listening = Some init_state,
      tasks = [Finished None, Finished None, Finished None, Finished None,
               Finished None, Finished None, Finished None]\<rparr>"
  unfolding stream_granted_def run_append audio_fallback_pending_run
  by (simp add: step_defs init_room_def init_state_def new_peer_def new_stream_def
      init_acquired_def attach_def pc_addTrack_def setters)

lemma stale_retry_run:
  "run stale_retry init_page =
     \<lparr>room = init_room
        \<lparr>state := init_state\<lparr>myStream := Some (new_stream 3 AudioOnly), isGettingMedia := True\<rparr>,
          peer := new_peer\<lparr>senders := [\<lparr>owner = 3, kind = Audio\<rparr>]\<rparr>,
          addTrackCalls := [\<lparr>owner = 3, kind = Audio\<rparr>],
          hwTrace := [Request AudioVideo, Sleep 1000, Request AudioVideo, Sleep 1000,
                      Request AudioVideo, Request AudioOnly, Request AudioVideo],
          hwCount := 5,
          console := busy_log\<rparr>,
      rendered = init_state, listening = Some init_state,
      tasks = [Finished None, Finished None, Finished None, Finished None,
               Finished None, Finished None, Finished None, AwaitCamera 4 0 init_state WRetry]\<rparr>"
  unfolding stale_retry_def run_append stream_granted_run
  by (simp add: step_defs init_room_def init_state_def new_peer_def new_stream_def
      render_def offered_def setters)

text \<open>
  C7 fails on the retry path. The audio-only stream has just been set and its track
  attached, and the page on the screen is still the render without a stream, with
  Retry Camera enabled. The press runs \<^verbatim>\<open>retryMediaAccess\<close> of that render: its
  \<^verbatim>\<open>myStream\<close> is \<^verbatim>\<open>null\<close>, so lines 360 to 363 are skipped. The stream stays set,
  none of its tracks is stopped, only the tracks-sent flag is reset, and the next
  hardware request (request 4) is made with the stream still live.
\<close>

theorem stale_retry_keeps_stream:
  "rendered (run stream_granted init_page) = init_state \<and>
   offered (render (rendered (run stream_granted init_page))) =
     [DebugPeerConnection, RetryMediaAccess] \<and>
   myStream (state (room (run stream_granted init_page))) = Some (new_stream 3 AudioOnly) \<and>
   isStreamsSent (state (room (run stream_granted init_page))) = True \<and>
   hwCount (room (run stream_granted init_page)) = 4 \<and>
   myStream (state (room (run stale_retry init_page))) = Some (new_stream 3 AudioOnly) \<and>
   isStreamsSent (state (room (run stale_retry init_page))) = False \<and>
   ended (room (run stale_retry init_page)) = {} \<and>
   hwCount (room (run stale_retry init_page)) = 5 \<and>
   in_flight (run stale_retry init_page) = [4] \<and>
   hwTrace (room (run stale_retry init_page)) =
     [Request AudioVideo, Sleep 1000, Request AudioVideo, Sleep 1000, Request AudioVideo,
      Request AudioOnly, Request AudioVideo]"
  unfolding stale_retry_run stream_granted_run
  by (simp add: init_room_def init_state_def render_def offered_def in_flight_def requests_of_def
      awaited_request_def)


end
